theory Spec2Isabelle
  imports Complex_Main
begin

section \<open>JavaScript strings and values\<close>

text \<open>
  A JavaScript string is a sequence of UTF-16 code units. A code unit is modelled as a
  natural number, so that every string the program can receive is covered (the type
  \<open>char\<close> of HOL has 8 bits only). \<open>lit\<close> turns an ASCII literal into such a string.
\<close>

type_synonym jschar = nat
type_synonym jstring = "jschar list"

definition lit :: "string \<Rightarrow> jstring" where
  "lit s = map of_char s"

text \<open>
  The characters the program tests for:
  \<open>"\<close> is 34, \<open>,\<close> is 44, \<open>:\<close> is 58, \<open>?\<close> is 63, \<open>[\<close> is 91,
  backslash is 92, \<open>]\<close> is 93, backtick is 96, \<open>_\<close> is 95, \<open>{\<close> is 123, \<open>}\<close> is 125.
\<close>

text \<open>
  The class \<open>\s\<close> of a JavaScript regular expression, which is also the set of characters
  removed by \<open>trim\<close> and \<open>trimEnd\<close> (WhiteSpace and LineTerminator of ECMA-262).
\<close>

definition is_space :: "jschar \<Rightarrow> bool" where
  "is_space c \<longleftrightarrow>
     c = 9 \<or> c = 10 \<or> c = 11 \<or> c = 12 \<or> c = 13 \<or> c = 32 \<or> c = 160 \<or> c = 5760 \<or>
     (8192 \<le> c \<and> c \<le> 8202) \<or> c = 8232 \<or> c = 8233 \<or> c = 8239 \<or> c = 8287 \<or>
     c = 12288 \<or> c = 65279"

definition trimStart :: "jstring \<Rightarrow> jstring" where
  "trimStart s = dropWhile is_space s"

definition trimEnd :: "jstring \<Rightarrow> jstring" where
  "trimEnd s = rev (dropWhile is_space (rev s))"

definition trim :: "jstring \<Rightarrow> jstring" where
  "trim s = trimEnd (trimStart s)"

text \<open>
  JavaScript values as far as the program meets them: the values \<open>JSON.parse\<close> returns,
  \<open>undefined\<close>, and arrays that carry extra named properties (an array is an object, and
  the agents assign \<open>theme\<close> to whatever \<open>parseJSON\<close> returned). A number is kept as the
  text it had in the JSON source; what depends on its IEEE-754 value is read through
  the runtime record below. The properties of an object are a list of key and value
  with distinct keys.
\<close>

datatype jsval =
    JUndefined
  | JNull
  | JBool bool
  | JNum jstring
  | JStr jstring
  | JArr "jsval list" "(jstring \<times> jsval) list"
  | JObj "(jstring \<times> jsval) list"

text \<open>The errors the program throws or lets through.\<close>

datatype error =
    Error jstring      \<comment> \<open>\<open>new Error(message)\<close>\<close>
  | SyntaxError        \<comment> \<open>thrown by \<open>JSON.parse\<close>\<close>
  | TypeError          \<comment> \<open>calling what is not a function, reading a property of null\<close>
  | External jstring   \<comment> \<open>whatever the LLM client, the renderer or the file system throws\<close>

text \<open>\<open>obj[k] = v\<close> on a property list: the value of an existing key is replaced in place,
  a new key is added at the end.\<close>

fun set_prop_list :: "(jstring \<times> jsval) list \<Rightarrow> jstring \<Rightarrow> jsval \<Rightarrow> (jstring \<times> jsval) list" where
  "set_prop_list [] k v = [(k, v)]"
| "set_prop_list ((k', v') # ps) k v =
     (if k' = k then (k, v) # ps else (k', v') # set_prop_list ps k v)"

fun get_prop_list :: "(jstring \<times> jsval) list \<Rightarrow> jstring \<Rightarrow> jsval" where
  "get_prop_list [] k = JUndefined"
| "get_prop_list ((k', v') # ps) k = (if k' = k then v' else get_prop_list ps k)"

section \<open>parse\_json.js\<close>

subsection \<open>The regular expressions of parseJSON\<close>

text \<open>\<open>/```json\s*/gi\<close>: three backticks, then \<open>json\<close> in either case.\<close>

definition at_fence_json :: "jstring \<Rightarrow> bool" where
  "at_fence_json s =
     (case s of
        c1 # c2 # c3 # c4 # c5 # c6 # c7 # _ \<Rightarrow>
          c1 = 96 \<and> c2 = 96 \<and> c3 = 96 \<and> (c4 = 106 \<or> c4 = 74) \<and> (c5 = 115 \<or> c5 = 83) \<and>
          (c6 = 111 \<or> c6 = 79) \<and> (c7 = 110 \<or> c7 = 78)
      | _ \<Rightarrow> False)"

text \<open>\<open>raw.replace(/```json\s*/gi, "")\<close>: every match is removed, from left to right; the
  search goes on after the end of a match.\<close>

function strip_fence_json :: "jstring \<Rightarrow> jstring" where
  "strip_fence_json [] = []"
| "strip_fence_json (c # cs) =
     (if at_fence_json (c # cs) then strip_fence_json (dropWhile is_space (drop 6 cs))
      else c # strip_fence_json cs)"
  by pat_completeness auto
termination
  by (relation "measure length")
     (auto intro!: le_imp_less_Suc order_trans [OF length_dropWhile_le])

definition at_fence :: "jstring \<Rightarrow> bool" where
  "at_fence s = (case s of c1 # c2 # c3 # _ \<Rightarrow> c1 = 96 \<and> c2 = 96 \<and> c3 = 96 | _ \<Rightarrow> False)"

text \<open>\<open>.replace(/```\s*/g, "")\<close>\<close>

function strip_fence :: "jstring \<Rightarrow> jstring" where
  "strip_fence [] = []"
| "strip_fence (c # cs) =
     (if at_fence (c # cs) then strip_fence (dropWhile is_space (drop 2 cs))
      else c # strip_fence cs)"
  by pat_completeness auto
termination
  by (relation "measure length")
     (auto intro!: le_imp_less_Suc order_trans [OF length_dropWhile_le])

text \<open>\<open>s.search(/[{\[]/)\<close>: the index of the first brace or bracket, \<open>None\<close> for -1.\<close>

fun search_open :: "jstring \<Rightarrow> nat option" where
  "search_open [] = None"
| "search_open (c # cs) =
     (if c = 123 \<or> c = 91 then Some 0 else map_option Suc (search_open cs))"

text \<open>\<open>s.replace(/,\s*([}\]])/g, "$1")\<close>: a comma, any white space and a closing brace or
  bracket are replaced by the closing character alone.\<close>

function strip_trailing_commas :: "jstring \<Rightarrow> jstring" where
  "strip_trailing_commas [] = []"
| "strip_trailing_commas (c # cs) =
     (if c = 44 then
        (case dropWhile is_space cs of
           [] \<Rightarrow> c # strip_trailing_commas cs
         | d # rest \<Rightarrow>
             if d = 125 \<or> d = 93 then d # strip_trailing_commas rest
             else c # strip_trailing_commas cs)
      else c # strip_trailing_commas cs)"
  by pat_completeness auto
termination
proof (relation "measure length", goal_cases)
  case 1
  show ?case by simp
next
  case (2 c cs)
  show ?case by simp
next
  case (3 c cs d rest)
  have "length (dropWhile is_space cs) \<le> length cs"
    by (rule length_dropWhile_le)
  with 3 show ?case by simp
next
  case (4 c cs d rest)
  show ?case by simp
next
  case (5 c cs)
  show ?case by simp
qed

text \<open>The three replacements that repairTruncated applies to the end of its result.
  \<open>/,\s*$/\<close> matches when the last character that is not white space is a comma, and
  \<open>/:\s*$/\<close> when it is a colon; \<open>/"[^"]*$/\<close> matches from the last double quote of the
  string, whenever the string has one.\<close>

definition drop_final_comma :: "jstring \<Rightarrow> jstring" where
  "drop_final_comma s =
     (let t = trimEnd s in if t \<noteq> [] \<and> last t = 44 then butlast t else s)"

definition fill_final_colon :: "jstring \<Rightarrow> jstring" where
  "fill_final_colon s =
     (let t = trimEnd s in if t \<noteq> [] \<and> last t = 58 then butlast t @ [58, 32, 34, 34] else s)"

definition close_final_quote :: "jstring \<Rightarrow> jstring" where
  "close_final_quote s =
     (if 34 \<in> set s then rev (tl (dropWhile (\<lambda>c. c \<noteq> 34) (rev s))) @ [34, 46, 46, 46, 34]
      else s)"

subsection \<open>The bracket matcher of parseJSON\<close>

text \<open>
  The \<open>for\<close> loop of step 3, started at index \<open>i\<close> with the loop variables \<open>depth\<close>,
  \<open>inStr\<close> and \<open>escape\<close>; the result is \<open>end\<close>, \<open>None\<close> for -1. \<open>opener\<close> is \<open>s[0]\<close>.
\<close>

fun scan_end :: "jschar option \<Rightarrow> jschar \<Rightarrow> int \<Rightarrow> bool \<Rightarrow> bool \<Rightarrow> nat \<Rightarrow> jstring \<Rightarrow> nat option" where
  "scan_end opener closer depth inStr escape i [] = None"
| "scan_end opener closer depth inStr escape i (c # cs) =
     (if escape then scan_end opener closer depth inStr False (Suc i) cs
      else if c = 92 then scan_end opener closer depth inStr True (Suc i) cs
      else if c = 34 then scan_end opener closer depth (\<not> inStr) False (Suc i) cs
      else if inStr then scan_end opener closer depth inStr False (Suc i) cs
      else
        (let depth1 = (if Some c = opener \<or> c = 123 \<or> c = 91 then depth + 1 else depth) in
         if c = closer \<or> c = 125 \<or> c = 93 then
           (if depth1 - 1 = 0 then Some i
            else scan_end opener closer (depth1 - 1) inStr False (Suc i) cs)
         else scan_end opener closer depth1 inStr False (Suc i) cs))"

subsection \<open>repairTruncated\<close>

text \<open>The loop of repairTruncated. The stack has its top at the head; the loop returns
  \<open>result\<close> and the stack, also when it leaves through \<open>break\<close>.\<close>

fun repair_loop :: "jschar list \<Rightarrow> bool \<Rightarrow> bool \<Rightarrow> jstring \<Rightarrow> jstring \<Rightarrow> jstring \<times> jschar list" where
  "repair_loop stack inStr escape result [] = (result, stack)"
| "repair_loop stack inStr escape result (c # cs) =
     (let result1 = result @ [c] in
      if escape then repair_loop stack inStr False result1 cs
      else if c = 92 then repair_loop stack inStr True result1 cs
      else if c = 34 then
        (let inStr1 = (\<not> inStr) in
         if \<not> inStr1 \<and> stack = [] then (result1, stack)
         else repair_loop stack inStr1 False result1 cs)
      else if inStr then repair_loop stack inStr False result1 cs
      else if c = 123 then repair_loop (125 # stack) inStr False result1 cs
      else if c = 91 then repair_loop (93 # stack) inStr False result1 cs
      else if (c = 125 \<or> c = 93) \<and> stack \<noteq> [] then repair_loop (tl stack) inStr False result1 cs
      else repair_loop stack inStr False result1 cs)"

definition repairTruncated :: "jstring \<Rightarrow> jstring" where
  "repairTruncated s =
     (case repair_loop [] False False [] s of
        (result, stack) \<Rightarrow>
          close_final_quote (fill_final_colon (drop_final_comma (trimEnd result))) @ stack)"

subsection \<open>JSON.parse\<close>

text \<open>
  \<open>JSON.parse\<close> is a built-in of the language. It is modelled after the grammar of
  ECMA-404 by a recursive-descent parser on code units. \<open>None\<close> stands for the
  SyntaxError it throws. The parser of values takes fuel, which bounds the number of
  nested calls; twice the length of the text is always enough (\<open>parse_value_fuel\<close> below).
\<close>

definition is_json_ws :: "jschar \<Rightarrow> bool" where
  "is_json_ws c \<longleftrightarrow> c = 32 \<or> c = 9 \<or> c = 10 \<or> c = 13"

definition skip_ws :: "jstring \<Rightarrow> jstring" where
  "skip_ws s = dropWhile is_json_ws s"

definition is_digit :: "jschar \<Rightarrow> bool" where
  "is_digit c \<longleftrightarrow> 48 \<le> c \<and> c \<le> 57"

definition hex_value :: "jschar \<Rightarrow> nat option" where
  "hex_value c =
     (if 48 \<le> c \<and> c \<le> 57 then Some (c - 48)
      else if 97 \<le> c \<and> c \<le> 102 then Some (c - 87)
      else if 65 \<le> c \<and> c \<le> 70 then Some (c - 55)
      else None)"

definition starts_with :: "jstring \<Rightarrow> jstring \<Rightarrow> bool" where
  "starts_with p s \<longleftrightarrow> take (length p) s = p"

text \<open>The escapes of a string literal: the character after a backslash, and the four
  hexadecimal digits after \<open>\u\<close>.\<close>

definition escape_char :: "jschar \<Rightarrow> jschar option" where
  "escape_char e =
     (if e = 34 \<or> e = 92 \<or> e = 47 then Some e
      else if e = 98 then Some 8
      else if e = 102 then Some 12
      else if e = 110 then Some 10
      else if e = 114 then Some 13
      else if e = 116 then Some 9
      else None)"

definition hex4 :: "jstring \<Rightarrow> (jschar \<times> jstring) option" where
  "hex4 s =
     (case s of
        h1 # h2 # h3 # h4 # r \<Rightarrow>
          (case (hex_value h1, hex_value h2, hex_value h3, hex_value h4) of
             (Some d1, Some d2, Some d3, Some d4) \<Rightarrow> Some (((d1 * 16 + d2) * 16 + d3) * 16 + d4, r)
           | _ \<Rightarrow> None)
      | _ \<Rightarrow> None)"

text \<open>The characters of a string literal after its opening quote: the decoded string
  and the text after the closing quote.\<close>

function parse_string_chars :: "jstring \<Rightarrow> jstring \<Rightarrow> (jstring \<times> jstring) option" where
  "parse_string_chars acc [] = None"
| "parse_string_chars acc (c # cs) =
     (if c = 34 then Some (acc, cs)
      else if c = 92 then
        (case cs of
           [] \<Rightarrow> None
         | e # r \<Rightarrow>
             if e = 117 then
               (case hex4 r of
                  None \<Rightarrow> None
                | Some (u, r') \<Rightarrow> parse_string_chars (acc @ [u]) r')
             else
               (case escape_char e of
                  None \<Rightarrow> None
                | Some x \<Rightarrow> parse_string_chars (acc @ [x]) r))
      else if c < 32 then None
      else parse_string_chars (acc @ [c]) cs)"
  by pat_completeness auto
termination
proof (relation "measure (\<lambda>(acc, cs). length cs)", goal_cases)
  case 1
  show ?case by simp
next
  case (2 acc c cs e r x2 u r')
  then have "length r' < length r"
    by (auto simp: hex4_def split: list.splits option.splits)
  with 2 show ?case by simp
next
  case (3 acc c cs e r x)
  then show ?case by simp
next
  case (4 acc c cs)
  then show ?case by simp
qed

text \<open>A number: \<open>-?(0|[1-9][0-9]*)(\.[0-9]+)?([eE][+-]?[0-9]+)?\<close>. The result is the text
  of the number and the text after it.\<close>

definition int_part :: "jstring \<Rightarrow> (jstring \<times> jstring) option" where
  "int_part s =
     (case s of
        [] \<Rightarrow> None
      | d # r \<Rightarrow>
          if d = 48 then Some ([d], r)
          else if is_digit d then Some (d # takeWhile is_digit r, dropWhile is_digit r)
          else None)"

definition digits1 :: "jstring \<Rightarrow> (jstring \<times> jstring) option" where
  "digits1 s = (if takeWhile is_digit s = [] then None
                else Some (takeWhile is_digit s, dropWhile is_digit s))"

definition frac_part :: "jstring \<Rightarrow> (jstring \<times> jstring) option" where
  "frac_part s =
     (case s of
        [] \<Rightarrow> Some ([], [])
      | d # r \<Rightarrow>
          if d = 46 then map_option (\<lambda>(ds, r'). (d # ds, r')) (digits1 r)
          else Some ([], s))"

definition exp_part :: "jstring \<Rightarrow> (jstring \<times> jstring) option" where
  "exp_part s =
     (case s of
        [] \<Rightarrow> Some ([], [])
      | e # r \<Rightarrow>
          if e = 101 \<or> e = 69 then
            (case r of
               [] \<Rightarrow> None
             | g # r' \<Rightarrow>
                 if g = 43 \<or> g = 45 then map_option (\<lambda>(ds, r''). (e # g # ds, r'')) (digits1 r')
                 else map_option (\<lambda>(ds, r''). (e # ds, r'')) (digits1 r))
          else Some ([], s))"

definition parse_number :: "jstring \<Rightarrow> (jstring \<times> jstring) option" where
  "parse_number s =
     (let (sgn, r0) = (case s of [] \<Rightarrow> ([], []) | c # r \<Rightarrow> if c = 45 then ([c], r) else ([], s)) in
      case int_part r0 of
        None \<Rightarrow> None
      | Some (ip, r1) \<Rightarrow>
          (case frac_part r1 of
             None \<Rightarrow> None
           | Some (fp, r2) \<Rightarrow>
               (case exp_part r2 of
                  None \<Rightarrow> None
                | Some (ep, r3) \<Rightarrow> Some (sgn @ ip @ fp @ ep, r3))))"

text \<open>A value, the elements of an array after its first bracket or a comma, and the
  members of an object after its brace or a comma.\<close>

fun parse_value :: "nat \<Rightarrow> jstring \<Rightarrow> (jsval \<times> jstring) option"
  and parse_elems :: "nat \<Rightarrow> jsval list \<Rightarrow> jstring \<Rightarrow> (jsval \<times> jstring) option"
  and parse_members :: "nat \<Rightarrow> (jstring \<times> jsval) list \<Rightarrow> jstring \<Rightarrow> (jsval \<times> jstring) option"
where
  "parse_value 0 s = None"
| "parse_value (Suc fuel) s =
     (case skip_ws s of
        [] \<Rightarrow> None
      | c # r \<Rightarrow>
          if c = 123 then
            (case skip_ws r of
               [] \<Rightarrow> None
             | d # r' \<Rightarrow> if d = 125 then Some (JObj [], r') else parse_members fuel [] r)
          else if c = 91 then
            (case skip_ws r of
               [] \<Rightarrow> None
             | d # r' \<Rightarrow> if d = 93 then Some (JArr [] [], r') else parse_elems fuel [] r)
          else if c = 34 then map_option (\<lambda>(str, r'). (JStr str, r')) (parse_string_chars [] r)
          else if starts_with (lit ''true'') (c # r) then Some (JBool True, drop 4 (c # r))
          else if starts_with (lit ''false'') (c # r) then Some (JBool False, drop 5 (c # r))
          else if starts_with (lit ''null'') (c # r) then Some (JNull, drop 4 (c # r))
          else map_option (\<lambda>(n, r'). (JNum n, r')) (parse_number (c # r)))"
| "parse_elems 0 acc s = None"
| "parse_elems (Suc fuel) acc s =
     (case parse_value fuel s of
        None \<Rightarrow> None
      | Some (v, r) \<Rightarrow>
          (case skip_ws r of
             [] \<Rightarrow> None
           | c # r' \<Rightarrow>
               if c = 44 then parse_elems fuel (acc @ [v]) r'
               else if c = 93 then Some (JArr (acc @ [v]) [], r')
               else None))"
| "parse_members 0 acc s = None"
| "parse_members (Suc fuel) acc s =
     (case skip_ws s of
        [] \<Rightarrow> None
      | q # r \<Rightarrow>
          if q = 34 then
            (case parse_string_chars [] r of
               None \<Rightarrow> None
             | Some (k, r1) \<Rightarrow>
                 (case skip_ws r1 of
                    [] \<Rightarrow> None
                  | c # r2 \<Rightarrow>
                      if c = 58 then
                        (case parse_value fuel r2 of
                           None \<Rightarrow> None
                         | Some (v, r3) \<Rightarrow>
                             (case skip_ws r3 of
                                [] \<Rightarrow> None
                              | d # r4 \<Rightarrow>
                                  if d = 44 then parse_members fuel (set_prop_list acc k v) r4
                                  else if d = 125 then Some (JObj (set_prop_list acc k v), r4)
                                  else None))
                      else None))
          else None)"

definition JSON_parse :: "jstring \<Rightarrow> jsval option" where
  "JSON_parse s =
     (case parse_value (2 * length s) s of
        None \<Rightarrow> None
      | Some (v, r) \<Rightarrow> if skip_ws r = [] then Some v else None)"

subsection \<open>parseJSON\<close>

definition no_json_msg :: jstring where
  "no_json_msg = lit ''Aucun JSON trouv'' @ [233] @ lit '' dans la r'' @ [233] @ lit ''ponse LLM''"

text \<open>
  The argument is a string: \<open>callLLM\<close> returns the result of \<open>join\<close>, so the first line of
  parseJSON, which throws for another type, is never taken. No string operation of the
  function throws; what is left to throw is the search for the first bracket and the
  second \<open>JSON.parse\<close>, which stands in the \<open>catch\<close> block of the first one.
\<close>

definition parseJSON :: "jstring \<Rightarrow> error + jsval" where
  "parseJSON raw =
     (let s = trim (strip_fence (strip_fence_json raw)) in
      case search_open s of
        None \<Rightarrow> Inl (Error no_json_msg)
      | Some start \<Rightarrow>
          (let s1 = drop start s;
               opener = (case s1 of [] \<Rightarrow> None | c # _ \<Rightarrow> Some c);
               closer = (if opener = Some 123 then 125 else 93);
               s2 = (case scan_end opener closer 0 False False 0 s1 of
                       None \<Rightarrow> repairTruncated s1
                     | Some e \<Rightarrow> take (e + 1) s1);
               s3 = strip_trailing_commas s2
           in case JSON_parse s3 of
                Some v \<Rightarrow> Inr v
              | None \<Rightarrow>
                  (let s4 = strip_trailing_commas (repairTruncated s3)
                   in case JSON_parse s4 of
                        Some v \<Rightarrow> Inr v
                      | None \<Rightarrow> Inl SyntaxError)))"

section \<open>Operations of the language the agents use\<close>

text \<open>
  What the program takes from the JavaScript runtime and from \<open>path\<close>, and this
  development does not define: the Unicode tables behind \<open>toLowerCase\<close> and
  \<open>normalize("NFD")\<close>, the IEEE-754 value of a number (its \<open>String\<close> and whether it is
  zero), \<open>path.join\<close>, and the directory of the script. They are parameters; every
  theorem below holds for all of them.
\<close>

record js_runtime =
  toLowerCase :: "jstring \<Rightarrow> jstring"
  normalizeNFD :: "jstring \<Rightarrow> jstring"
  numberToString :: "jstring \<Rightarrow> jstring"
  numberIsZero :: "jstring \<Rightarrow> bool"
  path_join :: "jstring \<Rightarrow> jstring \<Rightarrow> jstring"
  default_outputDir :: jstring

text \<open>A runtime for the examples: it agrees with JavaScript on ASCII strings, on
  numbers written as plain integers and on simple paths.\<close>

definition ascii_lower :: "jschar \<Rightarrow> jschar" where
  "ascii_lower c = (if 65 \<le> c \<and> c \<le> 90 then c + 32 else c)"

definition ascii_runtime :: js_runtime where
  "ascii_runtime =
     \<lparr> toLowerCase = map ascii_lower,
       normalizeNFD = (\<lambda>s. s),
       numberToString = (\<lambda>n. n),
       numberIsZero = (\<lambda>n. n = [48]),
       path_join = (\<lambda>d f. d @ [47] @ f),
       default_outputDir = lit ''output'' \<rparr>"

text \<open>The decimal text of a natural number, as \<open>String\<close> gives it for a length or an index.\<close>

fun nat_to_dec :: "nat \<Rightarrow> jstring" where
  "nat_to_dec n = (if n < 10 then [48 + n] else nat_to_dec (n div 10) @ [48 + n mod 10])"

declare nat_to_dec.simps [simp del]

text \<open>\<open>arr.join(sep)\<close> on an array of strings.\<close>

fun js_join :: "jstring \<Rightarrow> jstring list \<Rightarrow> jstring" where
  "js_join sep [] = []"
| "js_join sep [x] = x"
| "js_join sep (x # y # ys) = x @ sep @ js_join sep (y # ys)"

text \<open>Truthiness, \<open>a || b\<close>, \<open>a ?? b\<close> and \<open>String(v)\<close> (also what a template literal does).\<close>

fun truthy :: "js_runtime \<Rightarrow> jsval \<Rightarrow> bool" where
  "truthy rt JUndefined = False"
| "truthy rt JNull = False"
| "truthy rt (JBool b) = b"
| "truthy rt (JNum n) = (\<not> numberIsZero rt n)"
| "truthy rt (JStr s) = (s \<noteq> [])"
| "truthy rt (JArr xs ps) = True"
| "truthy rt (JObj ps) = True"

definition js_or :: "js_runtime \<Rightarrow> jsval \<Rightarrow> jsval \<Rightarrow> jsval" where
  "js_or rt a b = (if truthy rt a then a else b)"

definition nullish :: "jsval \<Rightarrow> bool" where
  "nullish v \<longleftrightarrow> v = JUndefined \<or> v = JNull"

definition js_coalesce :: "jsval \<Rightarrow> jsval \<Rightarrow> jsval" where
  "js_coalesce a b = (if nullish a then b else a)"

fun ToString :: "js_runtime \<Rightarrow> jsval \<Rightarrow> jstring" where
  "ToString rt JUndefined = lit ''undefined''"
| "ToString rt JNull = lit ''null''"
| "ToString rt (JBool b) = (if b then lit ''true'' else lit ''false'')"
| "ToString rt (JNum n) = numberToString rt n"
| "ToString rt (JStr s) = s"
| "ToString rt (JArr xs ps) =
     js_join [44] (map (\<lambda>v. if v = JUndefined \<or> v = JNull then [] else ToString rt v) xs)"
| "ToString rt (JObj ps) = lit ''[object Object]''"

text \<open>
  The own enumerable properties of a value, in the order of \<open>Object.keys\<close> for an array
  (indices, then names). Reading a property, \<open>v[k]\<close>, looks the key up among them: the
  keys the program reads are field names of the documents, none of which is \<open>length\<close> or
  a name on a prototype. For \<open>null\<close> and \<open>undefined\<close> the read throws; the callers below
  test for them before they read.
\<close>

fun own_props :: "jsval \<Rightarrow> (jstring \<times> jsval) list" where
  "own_props (JObj ps) = ps"
| "own_props (JArr xs ps) = zip (map nat_to_dec [0..<length xs]) xs @ ps"
| "own_props (JStr s) = zip (map nat_to_dec [0..<length s]) (map (\<lambda>c. JStr [c]) s)"
| "own_props v = []"

definition get_prop :: "jsval \<Rightarrow> jstring \<Rightarrow> jsval" where
  "get_prop v k = get_prop_list (own_props v) k"

text \<open>\<open>v?.k\<close>\<close>

definition get_prop_opt :: "jsval \<Rightarrow> jstring \<Rightarrow> jsval" where
  "get_prop_opt v k = (if nullish v then JUndefined else get_prop v k)"

text \<open>\<open>v.k = x\<close> for a name \<open>k\<close> (not an index). The files are in strict mode: the
  assignment throws when \<open>v\<close> is not an object.\<close>

fun assign_prop :: "jsval \<Rightarrow> jstring \<Rightarrow> jsval \<Rightarrow> error + jsval" where
  "assign_prop (JObj ps) k x = Inr (JObj (set_prop_list ps k x))"
| "assign_prop (JArr xs ps) k x = Inr (JArr xs (set_prop_list ps k x))"
| "assign_prop v k x = Inl TypeError"

text \<open>\<open>{ ...a, ...b }\<close>: a new object that receives the own enumerable properties of \<open>a\<close>,
  then those of \<open>b\<close>.\<close>

definition copy_props :: "(jstring \<times> jsval) list \<Rightarrow> jsval \<Rightarrow> (jstring \<times> jsval) list" where
  "copy_props ps v = foldl (\<lambda>acc (k, x). set_prop_list acc k x) ps (own_props v)"

definition spread2 :: "jsval \<Rightarrow> jsval \<Rightarrow> jsval" where
  "spread2 a b = JObj (copy_props (copy_props [] a) b)"

text \<open>\<open>v?.join(", ")\<close> in a log message: nothing is called for \<open>null\<close> and \<open>undefined\<close>, an
  array is joined, and any other value has no function \<open>join\<close> to call.\<close>

fun join_opt :: "jsval \<Rightarrow> error + unit" where
  "join_opt JUndefined = Inr ()"
| "join_opt JNull = Inr ()"
| "join_opt (JArr xs ps) = Inr ()"
| "join_opt v = Inl TypeError"

text \<open>\<open>new Set(xs)\<close> spread back into an array: the first occurrence of each element.\<close>

fun js_Set :: "jstring list \<Rightarrow> jstring list" where
  "js_Set [] = []"
| "js_Set (x # xs) = x # filter (\<lambda>y. y \<noteq> x) (js_Set xs)"

text \<open>\<open>d.includes(sub)\<close>\<close>

fun js_includes :: "jstring \<Rightarrow> jstring \<Rightarrow> bool" where
  "js_includes [] sub = (sub = [])"
| "js_includes (c # cs) sub = (starts_with sub (c # cs) \<or> js_includes cs sub)"

section \<open>validate\_structure\<close>

record rule =
  field :: jstring
  check :: "jsval \<Rightarrow> bool"
  msg :: jstring

record validation =
  valid :: bool
  errors :: "jstring list"
  score :: int

text \<open>The predicates of the rules.
  \<open>Array.isArray(d) && d.length >= n\<close>, \<open>typeof d === "string" && d.length >= n\<close>,
  \<open>typeof d === "string" && d.trim().endsWith("?")\<close> and
  \<open>typeof d === "object" && Object.keys(d).length >= n\<close> (the value is never \<open>null\<close> there,
  see \<open>js_coalesce\<close> in \<open>validate_rules\<close>).\<close>

definition array_min :: "nat \<Rightarrow> jsval \<Rightarrow> bool" where
  "array_min n d = (case d of JArr xs ps \<Rightarrow> n \<le> length xs | _ \<Rightarrow> False)"

definition string_min :: "nat \<Rightarrow> jsval \<Rightarrow> bool" where
  "string_min n d = (case d of JStr s \<Rightarrow> n \<le> length s | _ \<Rightarrow> False)"

definition is_question :: "jsval \<Rightarrow> bool" where
  "is_question d = (case d of JStr s \<Rightarrow> trim s \<noteq> [] \<and> last (trim s) = 63 | _ \<Rightarrow> False)"

definition object_min_keys :: "nat \<Rightarrow> jsval \<Rightarrow> bool" where
  "object_min_keys n d =
     (case d of JObj ps \<Rightarrow> n \<le> length (own_props d)
              | JArr xs ps \<Rightarrow> n \<le> length (own_props d)
              | _ \<Rightarrow> False)"

text \<open>\<open>Math.round\<close>, and the score \<open>Math.round(((total - failed) / total) * 100)\<close>. The
  quotient is taken in exact arithmetic: for the 8, 9 and 12 rules of the three tables
  the double is either exact or far from a half.\<close>

definition Math_round :: "real \<Rightarrow> int" where
  "Math_round x = \<lfloor>x + 1 / 2\<rfloor>"

text \<open>The body that the three functions validate\_structure share, for a table of rules.\<close>

definition validate_rules :: "rule list \<Rightarrow> jsval \<Rightarrow> error + validation" where
  "validate_rules rules data =
     (if nullish data then Inl TypeError
      else
        (let errs = map (\<lambda>r. [91] @ field r @ [93, 32] @ msg r)
                      (filter (\<lambda>r. \<not> check r (js_coalesce (get_prop data (field r)) (JStr []))) rules)
         in Inr \<lparr> valid = (length errs = 0),
                  errors = errs,
                  score = Math_round ((real (length rules - length errs) / real (length rules)) * 100) \<rparr>))"

text \<open>agent1\_prosit\_aller.js\<close>

definition rules_prosit_aller :: "rule list" where
  "rules_prosit_aller =
     [ \<lparr> field = lit ''mots_cles'', check = array_min 6,
         msg = [8805] @ lit ''6 mots cl'' @ [233] @ lit ''s requis'' \<rparr>,
       \<lparr> field = lit ''contexte'', check = string_min 100,
         msg = lit ''contexte trop court ('' @ [8805] @ lit ''100 car.)'' \<rparr>,
       \<lparr> field = lit ''definition_besoins'', check = array_min 2,
         msg = [8805] @ lit ''2 besoins requis'' \<rparr>,
       \<lparr> field = lit ''problematique'', check = is_question,
         msg = lit ''doit '' @ [234] @ lit ''tre une question (finir par ?)'' \<rparr>,
       \<lparr> field = lit ''contraintes'', check = array_min 3,
         msg = [8805] @ lit ''3 contraintes requises'' \<rparr>,
       \<lparr> field = lit ''generalisation'', check = string_min 20,
         msg = lit ''g'' @ [233] @ lit ''n'' @ [233] @ lit ''ralisation trop courte'' \<rparr>,
       \<lparr> field = lit ''pistes_solution'', check = array_min 2,
         msg = [8805] @ lit ''2 pistes de solution requises'' \<rparr>,
       \<lparr> field = lit ''plan_action'', check = array_min 4,
         msg = lit ''plan d'' @ [39] @ lit ''action : '' @ [8805] @ lit ''4 '' @ [233] @ lit ''tapes'' \<rparr> ]"

definition validate_structure_pa :: "jsval \<Rightarrow> error + validation" where
  "validate_structure_pa data = validate_rules rules_prosit_aller data"

text \<open>agent2\_prosit\_retour.js\<close>

definition rules_prosit_retour :: "rule list" where
  "rules_prosit_retour =
     [ \<lparr> field = lit ''definitions'', check = object_min_keys 4,
         msg = [8805] @ lit ''4 d'' @ [233] @ lit ''finitions requises'' \<rparr>,
       \<lparr> field = lit ''contexte_rappel'', check = string_min 80,
         msg = lit ''contexte_rappel trop court'' \<rparr>,
       \<lparr> field = lit ''besoins'', check = array_min 2,
         msg = [8805] @ lit ''2 besoins requis'' \<rparr>,
       \<lparr> field = lit ''contraintes'', check = array_min 2,
         msg = [8805] @ lit ''2 contraintes requises'' \<rparr>,
       \<lparr> field = lit ''problematique'', check = is_question,
         msg = lit ''problematique doit finir par ?'' \<rparr>,
       \<lparr> field = lit ''validation_hypotheses'', check = array_min 2,
         msg = [8805] @ lit ''2 validations d'' @ [39] @ lit ''hypoth'' @ [232] @ lit ''ses requises'' \<rparr>,
       \<lparr> field = lit ''plan_action'', check = array_min 3,
         msg = [8805] @ lit ''3 '' @ [233] @ lit ''tapes dans le plan d'' @ [39] @ lit ''action'' \<rparr>,
       \<lparr> field = lit ''solutions'', check = array_min 2,
         msg = [8805] @ lit ''2 solutions requises'' \<rparr>,
       \<lparr> field = lit ''bilan'', check = string_min 60,
         msg = lit ''bilan trop court'' \<rparr> ]"

definition validate_structure_pr :: "jsval \<Rightarrow> error + validation" where
  "validate_structure_pr data = validate_rules rules_prosit_retour data"

text \<open>agent3\_cer.js\<close>

definition rules_cer :: "rule list" where
  "rules_cer =
     [ \<lparr> field = lit ''contexte'', check = string_min 100,
         msg = lit ''contexte trop court ('' @ [8805] @ lit ''100 car.)'' \<rparr>,
       \<lparr> field = lit ''objectifs_savoir'', check = array_min 4,
         msg = [8805] @ lit ''4 objectifs savoir requis'' \<rparr>,
       \<lparr> field = lit ''objectifs_savoir_faire'', check = array_min 4,
         msg = [8805] @ lit ''4 objectifs savoir-faire requis'' \<rparr>,
       \<lparr> field = lit ''besoins'', check = array_min 2,
         msg = [8805] @ lit ''2 besoins requis'' \<rparr>,
       \<lparr> field = lit ''problematique'', check = is_question,
         msg = lit ''problematique doit finir par ?'' \<rparr>,
       \<lparr> field = lit ''contraintes'', check = array_min 3,
         msg = [8805] @ lit ''3 contraintes requises'' \<rparr>,
       \<lparr> field = lit ''realisation'', check = array_min 3,
         msg = [8805] @ lit ''3 sections de r'' @ [233] @ lit ''alisation'' \<rparr>,
       \<lparr> field = lit ''validation_hypotheses'', check = array_min 2,
         msg = [8805] @ lit ''2 validations d'' @ [39] @ lit ''hypoth'' @ [232] @ lit ''ses'' \<rparr>,
       \<lparr> field = lit ''conclusion'', check = string_min 100,
         msg = lit ''conclusion trop courte ('' @ [8805] @ lit ''100 car.)'' \<rparr>,
       \<lparr> field = lit ''synthese'', check = string_min 200,
         msg = lit ''synth'' @ [232] @ lit ''se trop courte ('' @ [8805] @ lit ''200 car.)'' \<rparr>,
       \<lparr> field = lit ''methodes_utilisees'', check = array_min 2,
         msg = [8805] @ lit ''2 m'' @ [233] @ lit ''thodes/outils'' \<rparr>,
       \<lparr> field = lit ''references_bibliographiques'', check = array_min 3,
         msg = [8805] @ lit ''3 r'' @ [233] @ lit ''f'' @ [233] @ lit ''rences bibliographiques'' \<rparr> ]"

definition validate_structure_cer :: "jsval \<Rightarrow> error + validation" where
  "validate_structure_cer data = validate_rules rules_cer data"

section \<open>check\_coherence\<close>

record coherence =
  coherent :: bool
  issues :: "jstring list"

definition msg_pa_absent :: jstring where
  "msg_pa_absent = lit ''Prosit Aller absent de la m'' @ [233] @ lit ''moire''"

definition msg_theme :: "js_runtime \<Rightarrow> jsval \<Rightarrow> jsval \<Rightarrow> jstring" where
  "msg_theme rt paTheme prTheme =
     lit ''Th'' @ [232] @ lit ''me incoh'' @ [233] @ lit ''rent : PA='' @ [34] @ ToString rt paTheme @
     [34] @ lit '' vs PR='' @ [34] @ ToString rt prTheme @ [34]"

definition msg_count :: "nat \<Rightarrow> nat \<Rightarrow> jstring" where
  "msg_count prValidations paHypos =
     lit ''Nombre de validations ('' @ nat_to_dec prValidations @ lit '') < pistes PA ('' @
     nat_to_dec paHypos @ lit '')''"

definition msg_missing :: "jstring list \<Rightarrow> jstring" where
  "msg_missing missing =
     lit ''Mots cl'' @ [233] @ lit ''s PA non d'' @ [233] @ lit ''finis dans PR : '' @
     js_join (lit '', '') (take 3 missing)"

text \<open>\<open>Array.isArray(v) ? v.length : 0\<close>\<close>

definition array_length_or_0 :: "jsval \<Rightarrow> nat" where
  "array_length_or_0 v = (case v of JArr xs ps \<Rightarrow> length xs | _ \<Rightarrow> 0)"

text \<open>
  \<open>(pa.mots_cles || []).map(m => String(m).toLowerCase())\<close>: a truthy value that is not
  an array has no function \<open>map\<close>, and the call throws a TypeError.
\<close>

definition check_coherence :: "js_runtime \<Rightarrow> jsval \<Rightarrow> jsval \<Rightarrow> error + coherence" where
  "check_coherence rt pa pr =
     (if \<not> truthy rt pa then Inr \<lparr> coherent = False, issues = [msg_pa_absent] \<rparr>
      else
        (let paTheme = toLowerCase rt (ToString rt (js_or rt (get_prop pa (lit ''theme'')) (JStr [])));
             prTheme = toLowerCase rt (ToString rt (js_or rt (get_prop_opt pr (lit ''theme'')) (JStr [])));
             issues1 =
               (if prTheme \<noteq> [] \<and> prTheme \<noteq> paTheme \<and> \<not> js_includes prTheme (take 10 paTheme)
                then [msg_theme rt (get_prop pa (lit ''theme'')) (get_prop_opt pr (lit ''theme''))]
                else []);
             paHypos = array_length_or_0 (get_prop pa (lit ''pistes_solution''));
             prValidations = array_length_or_0 (get_prop_opt pr (lit ''validation_hypotheses''));
             issues2 =
               (if paHypos > 0 \<and> prValidations > 0 \<and> prValidations < paHypos
                then issues1 @ [msg_count prValidations paHypos]
                else issues1)
         in case js_or rt (get_prop pa (lit ''mots_cles'')) (JArr [] []) of
              JArr ms ps \<Rightarrow>
                (let paMots = js_Set (map (\<lambda>m. toLowerCase rt (ToString rt m)) ms);
                     prDefs = js_Set (map (\<lambda>k. toLowerCase rt k)
                                (map fst (own_props (js_or rt (get_prop_opt pr (lit ''definitions'')) (JObj [])))));
                     missing = filter (\<lambda>m. \<not> (\<exists>d \<in> set prDefs. js_includes d (take 5 m))) paMots;
                     issues3 = (if length missing > 2 then issues2 @ [msg_missing missing] else issues2)
                 in Inr \<lparr> coherent = (length issues3 = 0), issues = issues3 \<rparr>)
            | _ \<Rightarrow> Inl TypeError))"

section \<open>The shared memory\<close>

datatype agent_name = Orchestrator | Agent1 | Agent2 | Agent3

datatype log_kind = Thought | Action | Observation | Result

text \<open>
  An entry of \<open>memory.logs\<close> keeps the agent and the type. The text of the message and the
  time stamp are left out; the places where building a message can throw are kept in
  the agents (\<open>join_opt\<close>). \<open>memory.startedAt\<close>, the time of creation, is left out too.
\<close>

type_synonym log_entry = "agent_name \<times> log_kind"

record memory =
  theme :: jstring
  rawInput :: jstring
  student :: jstring
  promotion :: jstring
  annee :: jstring
  slug :: jstring
  outputDir :: jstring
  prositAller :: jsval
  prositRetour :: jsval
  cer :: jsval
  files_prositAller :: "jstring option"
  files_prositRetour :: "jstring option"
  files_cer :: "jstring option"
  logs :: "log_entry list"
  coherenceWarnings :: "jstring list"

subsection \<open>createMemory\<close>

text \<open>The argument of createMemory: a field that is not given is \<open>None\<close> for a string and
  \<open>JUndefined\<close> for a document.\<close>

record params =
  p_theme :: "jstring option"
  p_rawInput :: "jstring option"
  p_student :: "jstring option"
  p_promotion :: "jstring option"
  p_annee :: "jstring option"
  p_outputDir :: "jstring option"
  p_prositAller :: jsval
  p_prositRetour :: jsval

text \<open>\<open>params.x || d\<close> for a string \<open>x\<close> that may be missing.\<close>

definition or_str :: "jstring option \<Rightarrow> jstring \<Rightarrow> jstring" where
  "or_str v d = (case v of None \<Rightarrow> d | Some x \<Rightarrow> if x = [] then d else x)"

text \<open>\<open>.replace(/[\u0300-\u036f]/g, "")\<close>\<close>

definition remove_accents :: "jstring \<Rightarrow> jstring" where
  "remove_accents s = filter (\<lambda>c. \<not> (768 \<le> c \<and> c \<le> 879)) s"

definition is_slug_char :: "jschar \<Rightarrow> bool" where
  "is_slug_char c \<longleftrightarrow> (97 \<le> c \<and> c \<le> 122) \<or> (48 \<le> c \<and> c \<le> 57)"

text \<open>\<open>.replace(/[^a-z0-9]+/g, "_")\<close>\<close>

function replace_non_alnum :: "jstring \<Rightarrow> jstring" where
  "replace_non_alnum [] = []"
| "replace_non_alnum (c # cs) =
     (if is_slug_char c then c # replace_non_alnum cs
      else 95 # replace_non_alnum (dropWhile (\<lambda>d. \<not> is_slug_char d) cs))"
  by pat_completeness auto
termination
  by (relation "measure length")
     (auto intro!: le_imp_less_Suc length_dropWhile_le)

text \<open>\<open>.replace(/^_|_$/g, "")\<close>: an underscore at the start is removed, and then an
  underscore at the end of what follows.\<close>

definition strip_underscores :: "jstring \<Rightarrow> jstring" where
  "strip_underscores s =
     (let s1 = (case s of [] \<Rightarrow> [] | c # r \<Rightarrow> if c = 95 then r else s)
      in if s1 \<noteq> [] \<and> last s1 = 95 then butlast s1 else s1)"

definition slug_of :: "js_runtime \<Rightarrow> jstring \<Rightarrow> jstring" where
  "slug_of rt th =
     take 35 (strip_underscores (replace_non_alnum (remove_accents
       (normalizeNFD rt (toLowerCase rt th)))))"

definition createMemory :: "js_runtime \<Rightarrow> params \<Rightarrow> memory" where
  "createMemory rt ps =
     (let th = or_str (p_theme ps) (lit ''Prosit'')
      in \<lparr> theme = th,
           rawInput = or_str (p_rawInput ps) [],
           student = or_str (p_student ps) (lit ''MAYACK ETIENNE''),
           promotion = or_str (p_promotion ps) (lit ''X2027''),
           annee = or_str (p_annee ps) (lit ''2025 '' @ [8211] @ lit '' 2026''),
           slug = slug_of rt th,
           outputDir = or_str (p_outputDir ps) (default_outputDir rt),
           prositAller = js_or rt (p_prositAller ps) JNull,
           prositRetour = js_or rt (p_prositRetour ps) JNull,
           cer = JNull,
           files_prositAller = None,
           files_prositRetour = None,
           files_cer = None,
           logs = [],
           coherenceWarnings = [] \<rparr>)"

section \<open>The agents\<close>

text \<open>
  What the outside gives to one run of an agent: the result of each call of \<open>callLLM\<close>
  (the text, or what it throws), in the order of the calls, and the result of the
  generator of the file. An agent calls the LLM for its plan, for the document, and
  once more when the document fails the validation.
\<close>

record stage_env =
  plan_reply :: "error + jstring"
  draft_reply :: "error + jstring"
  repair_reply :: "error + jstring"
  render_result :: "error + unit"

text \<open>A step that may throw, in a function that threads the memory: the error leaves the
  function with the memory as it is at that point.\<close>

definition attempt ::
    "error + 'a \<Rightarrow> memory \<Rightarrow> ('a \<Rightarrow> memory \<times> (error + 'b)) \<Rightarrow> memory \<times> (error + 'b)" where
  "attempt r m k = (case r of Inl e \<Rightarrow> (m, Inl e) | Inr x \<Rightarrow> k x)"

definition and_then ::
    "memory \<times> (error + 'a) \<Rightarrow> (memory \<Rightarrow> 'a \<Rightarrow> memory \<times> (error + 'b)) \<Rightarrow> memory \<times> (error + 'b)" where
  "and_then r k = (case r of (m, Inl e) \<Rightarrow> (m, Inl e) | (m, Inr x) \<Rightarrow> k m x)"

type_synonym logger = "log_kind \<Rightarrow> memory \<Rightarrow> memory"

subsection \<open>agent1\_prosit\_aller.js\<close>

definition Agent1_runAgent :: "js_runtime \<Rightarrow> stage_env \<Rightarrow> logger \<Rightarrow> memory \<Rightarrow> memory \<times> (error + jsval)" where
  "Agent1_runAgent rt env onLog m0 =
     (let m1 = onLog Action (onLog Thought (onLog Thought m0)) in
      attempt (plan_reply env) m1 (\<lambda>rawAnalysis.
      attempt (parseJSON rawAnalysis) m1 (\<lambda>analysis.
      attempt (join_opt (get_prop analysis (lit ''enjeux''))) m1 (\<lambda>_.
      let m2 = onLog Action (onLog Thought (onLog Observation (onLog Observation m1))) in
      attempt (draft_reply env) m2 (\<lambda>rawPA.
      attempt (parseJSON rawPA) m2 (\<lambda>pa0.
      attempt (assign_prop pa0 (lit ''theme'')
                 (js_or rt (get_prop pa0 (lit ''theme'')) (JStr (theme m2)))) m2 (\<lambda>pa1.
      let m3 = onLog Action m2 in
      attempt (validate_structure_pa pa1) m3 (\<lambda>v1.
      let m4 = onLog Observation m3 in
      and_then
        (if \<not> valid v1 then
           (let m5 = onLog Action (onLog Thought m4) in
            attempt (repair_reply env) m5 (\<lambda>rawFixed.
            attempt (parseJSON rawFixed) m5 (\<lambda>fixed.
            let pa2 = spread2 pa1 fixed in
            attempt (validate_structure_pa pa2) m5 (\<lambda>v2.
            (onLog Thought (onLog Observation m5), Inr pa2)))))
         else (onLog Thought m4, Inr pa1))
        (\<lambda>m6 pa.
           let m7 = onLog Action (m6\<lparr>prositAller := pa\<rparr>);
               outputPath = path_join rt (outputDir m7)
                              (lit ''01_Prosit_Aller_'' @ slug m7 @ lit ''.docx'');
               m8 = onLog Action m7
           in attempt (render_result env) m8 (\<lambda>_.
                (onLog Result (m8\<lparr>files_prositAller := Some outputPath\<rparr>), Inr pa)))))))))))"

subsection \<open>agent2\_prosit\_retour.js\<close>

definition msg_agent2_no_pa :: jstring where
  "msg_agent2_no_pa =
     lit ''Agent 2 : Prosit Aller absent de la m'' @ [233] @ lit ''moire partag'' @ [233] @
     lit ''e. Agent 1 doit s'' @ [39] @ lit ''ex'' @ [233] @ lit ''cuter en premier.''"

definition Agent2_runAgent :: "js_runtime \<Rightarrow> stage_env \<Rightarrow> logger \<Rightarrow> memory \<Rightarrow> memory \<times> (error + jsval)" where
  "Agent2_runAgent rt env onLog m0 =
     (if \<not> truthy rt (prositAller m0) then (m0, Inl (Error msg_agent2_no_pa))
      else
        (let pa = prositAller m0;
             m1 = onLog Action (onLog Thought (onLog Thought m0)) in
         attempt (plan_reply env) m1 (\<lambda>rawPlan.
         attempt (parseJSON rawPlan) m1 (\<lambda>plan.
         attempt (join_opt (get_prop plan (lit ''themes_a_approfondir''))) m1 (\<lambda>_.
         let m2 = onLog Action (onLog Observation (onLog Observation m1)) in
         attempt (check_coherence rt pa JNull) m2 (\<lambda>coherence0.
         let m3 = onLog Action (onLog Thought (onLog Observation m2)) in
         attempt (draft_reply env) m3 (\<lambda>rawPR.
         attempt (parseJSON rawPR) m3 (\<lambda>pr0.
         attempt (assign_prop pr0 (lit ''theme'')
                    (js_or rt (get_prop pr0 (lit ''theme'')) (get_prop pa (lit ''theme'')))) m3 (\<lambda>pr1.
         let m4 = onLog Action m3 in
         attempt (validate_structure_pr pr1) m4 (\<lambda>v1.
         let m5 = onLog Action (onLog Observation m4) in
         attempt (check_coherence rt pa pr1) m5 (\<lambda>coh.
         let m6 = (if \<not> coherent coh
                   then (let m' = onLog Observation m5
                         in m'\<lparr>coherenceWarnings := coherenceWarnings m' @ issues coh\<rparr>)
                   else onLog Observation m5) in
         and_then
           (if \<not> valid v1 then
              (let m7 = onLog Action (onLog Thought m6) in
               attempt (repair_reply env) m7 (\<lambda>rawFixed.
               attempt (parseJSON rawFixed) m7 (\<lambda>fixed.
               let pr2 = spread2 pr1 fixed in
               attempt (validate_structure_pr pr2) m7 (\<lambda>v2.
               (onLog Observation m7, Inr pr2)))))
            else (onLog Thought m6, Inr pr1))
           (\<lambda>m8 pr.
              let m9 = onLog Action (m8\<lparr>prositRetour := pr\<rparr>);
                  outputPath = path_join rt (outputDir m9)
                                 (lit ''02_Prosit_Retour_'' @ slug m9 @ lit ''.pptx'');
                  m10 = onLog Action m9
              in attempt (render_result env) m10 (\<lambda>_.
                   (onLog Result (m10\<lparr>files_prositRetour := Some outputPath\<rparr>), Inr pr))))))))))))))"

subsection \<open>agent3\_cer.js\<close>

text \<open>analyze\_memory. Of its result, \<open>avgScore\<close> is left out: it is read from the text of
  the log messages and only goes into another message.\<close>

record mem_analysis =
  source :: jstring
  warnings :: nat
  richness :: jstring
  hasPR :: bool

definition analyze_memory :: "js_runtime \<Rightarrow> memory \<Rightarrow> mem_analysis" where
  "analyze_memory rt m =
     (let hasPR' = truthy rt (prositRetour m);
          hasPA = truthy rt (prositAller m);
          paFields = (if hasPR' then length (own_props (prositRetour m))
                      else if hasPA then length (own_props (prositAller m))
                      else 0);
          richness' = (if paFields \<ge> 10 then lit ''riche''
                       else if paFields \<ge> 6 then lit ''moyenne''
                       else lit ''minimale'')
      in \<lparr> source = (if hasPA \<and> hasPR' then lit ''PA + PR''
                     else if hasPR' then lit ''PR seul''
                     else if hasPA then lit ''PA seul''
                     else lit ''m'' @ [233] @ lit ''moire minimale''),
           warnings = length (coherenceWarnings m),
           richness = richness',
           hasPR = hasPR' \<rparr>)"

definition Agent3_runAgent :: "js_runtime \<Rightarrow> stage_env \<Rightarrow> logger \<Rightarrow> memory \<Rightarrow> memory \<times> (error + jsval)" where
  "Agent3_runAgent rt env onLog m0 =
     (let hasPR' = truthy rt (prositRetour m0);
          sourceData = (if hasPR' then prositRetour m0 else js_or rt (prositAller m0) (JObj []));
          m1 = onLog Action (onLog Thought (onLog Thought m0));
          memAnalysis = analyze_memory rt m1;
          m2 = onLog Observation m1;
          m3 = (if warnings memAnalysis > 0 then onLog Observation m2 else m2);
          m4 = onLog Action m3 in
      attempt (plan_reply env) m4 (\<lambda>rawPlan.
      attempt (parseJSON rawPlan) m4 (\<lambda>plan.
      attempt (join_opt (get_prop plan (lit ''sections_prioritaires''))) m4 (\<lambda>_.
      let m5 = onLog Action (onLog Thought (onLog Observation (onLog Observation m4))) in
      attempt (draft_reply env) m5 (\<lambda>rawCER.
      attempt (parseJSON rawCER) m5 (\<lambda>cer0.
      attempt (assign_prop cer0 (lit ''theme'')
                 (js_or rt (js_or rt (get_prop cer0 (lit ''theme'')) (get_prop sourceData (lit ''theme'')))
                    (JStr (theme m5)))) m5 (\<lambda>cer1.
      let m6 = onLog Action m5 in
      attempt (validate_structure_cer cer1) m6 (\<lambda>v1.
      let m7 = onLog Observation m6 in
      and_then
        (if \<not> valid v1 then
           (let m8 = onLog Action (onLog Thought m7) in
            attempt (repair_reply env) m8 (\<lambda>rawFixed.
            attempt (parseJSON rawFixed) m8 (\<lambda>fixed.
            let cer2 = spread2 cer1 fixed in
            attempt (validate_structure_cer cer2) m8 (\<lambda>v2.
            (onLog Thought (onLog Observation m8), Inr cer2)))))
         else (onLog Thought m7, Inr cer1))
        (\<lambda>m9 c.
           let m10 = onLog Action (m9\<lparr>cer := c\<rparr>);
               outputPath = path_join rt (outputDir m10) (lit ''03_CER_'' @ slug m10 @ lit ''.docx'');
               m11 = onLog Action m10
           in attempt (render_result env) m11 (\<lambda>_.
                (onLog Result (m11\<lparr>files_cer := Some outputPath\<rparr>), Inr c)))))))))))"

section \<open>orchestrator.js: run\<close>

text \<open>\<open>log\<close> of run, here \<open>log_mem\<close>: the entry is pushed on \<open>memory.logs\<close>. The callbacks \<open>onLog\<close> and
  \<open>onStep\<close> of the caller are outside the program; they do not touch the memory.\<close>

definition log_mem :: "agent_name \<Rightarrow> log_kind \<Rightarrow> memory \<Rightarrow> memory" where
  "log_mem a k m = m\<lparr>logs := logs m @ [(a, k)]\<rparr>"

record run_result =
  r_prositAller :: jsval
  r_prositRetour :: jsval
  r_cer :: jsval
  r_files :: "jstring option \<times> jstring option \<times> jstring option"
  r_logs :: "log_entry list"

type_synonym agent = "logger \<Rightarrow> memory \<Rightarrow> memory \<times> (error + jsval)"

text \<open>The four entries that open a run.\<close>

definition run_intro :: "memory \<Rightarrow> memory" where
  "run_intro m =
     log_mem Orchestrator Observation (log_mem Orchestrator Observation
       (log_mem Orchestrator Thought (log_mem Orchestrator Thought m)))"

text \<open>The block of Agent 1.\<close>

definition run_agent1 :: "agent \<Rightarrow> jstring \<Rightarrow> memory \<Rightarrow> memory \<times> (error + unit)" where
  "run_agent1 A1 mode m =
     (if mode = lit ''full'' then
        and_then (A1 (log_mem Agent1) (log_mem Orchestrator Action m))
          (\<lambda>m' _. (log_mem Orchestrator Observation m', Inr ()))
      else (log_mem Orchestrator Observation m, Inr ()))"

text \<open>The block of Agent 2.\<close>

definition run_agent2 :: "agent \<Rightarrow> jstring \<Rightarrow> bool \<Rightarrow> memory \<Rightarrow> memory \<times> (error + unit)" where
  "run_agent2 A2 mode skipPR m =
     (if mode = lit ''from_pr'' then (log_mem Orchestrator Observation m, Inr ())
      else if skipPR then (log_mem Orchestrator Observation m, Inr ())
      else
        and_then (A2 (log_mem Agent2) (log_mem Orchestrator Action m))
          (\<lambda>m' _. (log_mem Orchestrator Observation m', Inr ())))"

text \<open>The block of Agent 3.\<close>

definition run_agent3 :: "agent \<Rightarrow> memory \<Rightarrow> memory \<times> (error + unit)" where
  "run_agent3 A3 m =
     and_then (A3 (log_mem Agent3) (log_mem Orchestrator Action m))
       (\<lambda>m' _. (log_mem Orchestrator Observation m', Inr ()))"

text \<open>The end of run: the summary, the warnings when there are any, and the result.\<close>

definition run_summary :: "memory \<Rightarrow> memory \<times> (error + run_result)" where
  "run_summary m =
     (let m1 = log_mem Orchestrator Result m;
          m2 = (if length (coherenceWarnings m1) > 0 then log_mem Orchestrator Observation m1 else m1)
      in (m2, Inr \<lparr> r_prositAller = prositAller m2,
                    r_prositRetour = prositRetour m2,
                    r_cer = cer m2,
                    r_files = (files_prositAller m2, files_prositRetour m2, files_cer m2),
                    r_logs = logs m2 \<rparr>))"

text \<open>
  run, for the three modules \<open>Agent1\<close>, \<open>Agent2\<close> and \<open>Agent3\<close> it requires. \<open>mkdir\<close> is the
  result of \<open>fs.mkdirSync\<close>. The result is the memory as run leaves it, and what run
  returns or throws.
\<close>

definition run ::
    "agent \<Rightarrow> agent \<Rightarrow> agent \<Rightarrow> error + unit \<Rightarrow> memory \<Rightarrow> jstring \<Rightarrow> bool \<Rightarrow> memory \<times> (error + run_result)" where
  "run A1 A2 A3 mkdir m mode skipPR =
     attempt mkdir m (\<lambda>_.
     and_then (run_agent1 A1 mode (run_intro m)) (\<lambda>m1 _.
     and_then (run_agent2 A2 mode skipPR m1) (\<lambda>m2 _.
     and_then (run_agent3 A3 m2) (\<lambda>m3 _.
     run_summary m3))))"

text \<open>The pipeline with the three agents of the repository.\<close>

record run_env =
  env_mkdir :: "error + unit"
  env_agent1 :: stage_env
  env_agent2 :: stage_env
  env_agent3 :: stage_env

definition pipeline ::
    "js_runtime \<Rightarrow> run_env \<Rightarrow> memory \<Rightarrow> jstring \<Rightarrow> bool \<Rightarrow> memory \<times> (error + run_result)" where
  "pipeline rt env m mode skipPR =
     run (Agent1_runAgent rt (env_agent1 env)) (Agent2_runAgent rt (env_agent2 env))
       (Agent3_runAgent rt (env_agent3 env)) (env_mkdir env) m mode skipPR"

section \<open>Auxiliary notions for the proofs, and inputs for the examples\<close>

text \<open>The keys of the own properties of a value are distinct: this holds for every value a
  JavaScript program can build, and is proved below for what parseJSON returns.\<close>

definition distinct_keys :: "jsval \<Rightarrow> bool" where
  "distinct_keys v \<longleftrightarrow> distinct (map fst (own_props v))"

text \<open>The number that a decimal text denotes.\<close>

definition dec_to_nat :: "jstring \<Rightarrow> nat" where
  "dec_to_nat s = foldl (\<lambda>a c. 10 * a + (c - 48)) 0 s"


definition params_cloud :: params where
  "params_cloud =
     \<lparr> p_theme = Some (lit ''Cloud migration''), p_rawInput = None, p_student = None,
       p_promotion = None, p_annee = None, p_outputDir = Some (lit ''out''),
       p_prositAller = JUndefined, p_prositRetour = JUndefined \<rparr>"

definition mem_cloud :: memory where
  "mem_cloud = createMemory ascii_runtime params_cloud"

definition env_repair_theme :: stage_env where
  "env_repair_theme =
     \<lparr> plan_reply = Inr (lit ''{}''),
       draft_reply = Inr (lit ''{\"theme\":\"A\"}''),
       repair_reply = Inr (lit ''{\"theme\":\"B\"}''),
       render_result = Inr () \<rparr>"

definition env_repair_keywords :: stage_env where
  "env_repair_keywords =
     \<lparr> plan_reply = Inr (lit ''{}''),
       draft_reply = Inr (lit ''{\"theme\":\"A\"}''),
       repair_reply = Inr (lit ''{\"mots_cles\":[]}''),
       render_result = Inr () \<rparr>"


definition params_from_pr :: params where
  "params_from_pr =
     \<lparr> p_theme = Some (lit ''Cloud migration''), p_rawInput = None, p_student = None,
       p_promotion = None, p_annee = None, p_outputDir = Some (lit ''out''),
       p_prositAller = JUndefined,
       p_prositRetour = JObj [(lit ''theme'', JStr (lit ''Cloud migration''))] \<rparr>"

definition mem_from_pr :: memory where
  "mem_from_pr = createMemory ascii_runtime params_from_pr"

definition env_cer_unrelated :: stage_env where
  "env_cer_unrelated =
     \<lparr> plan_reply = Inr (lit ''{}''),
       draft_reply = Inr (lit ''{\"theme\":\"Unrelated topic\"}''),
       repair_reply = Inr (lit ''{}''),
       render_result = Inr () \<rparr>"

definition env_llm_down :: stage_env where
  "env_llm_down =
     \<lparr> plan_reply = Inl (External (lit ''quota'')),
       draft_reply = Inl (External (lit ''quota'')),
       repair_reply = Inl (External (lit ''quota'')),
       render_result = Inr () \<rparr>"

definition env_stage1_down :: run_env where
  "env_stage1_down =
     \<lparr> env_mkdir = Inr (), env_agent1 = env_llm_down, env_agent2 = env_repair_keywords,
       env_agent3 = env_cer_unrelated \<rparr>"

definition env_stage2_down :: run_env where
  "env_stage2_down =
     \<lparr> env_mkdir = Inr (), env_agent1 = env_repair_keywords, env_agent2 = env_llm_down,
       env_agent3 = env_cer_unrelated \<rparr>"

definition env_stage3_down :: run_env where
  "env_stage3_down =
     \<lparr> env_mkdir = Inr (), env_agent1 = env_repair_keywords, env_agent2 = env_repair_keywords,
       env_agent3 = env_llm_down \<rparr>"

section \<open>Documents for the examples of check\_coherence\<close>

definition pa_three_keywords :: jsval where
  "pa_three_keywords =
     JObj [(lit ''theme'', JStr (lit ''Cloud migration'')),
           (lit ''mots_cles'', JArr [JStr (lit ''alpha''), JStr (lit ''beta''), JStr (lit ''gamma'')] [])]"





section \<open>The validator as the specification words it\<close>

definition spec_rule_fails :: "jsval \<Rightarrow> rule \<Rightarrow> bool" where
  "spec_rule_fails doc r \<longleftrightarrow>
     \<not> check r (if get_prop doc (field r) = JUndefined \<or> get_prop doc (field r) = JNull
                 then JStr [] else get_prop doc (field r))"

definition rule_message :: "rule \<Rightarrow> jstring" where
  "rule_message r = lit ''['' @ field r @ lit ''] '' @ msg r"

definition spec_errors :: "rule list \<Rightarrow> jsval \<Rightarrow> jstring list" where
  "spec_errors rules doc = map rule_message (filter (spec_rule_fails doc) rules)"

definition spec_score :: "nat \<Rightarrow> nat \<Rightarrow> int" where
  "spec_score totalRules failedRules =
     round (100 * real (totalRules - failedRules) / real totalRules)"

definition spec_validate :: "rule list \<Rightarrow> jsval \<Rightarrow> validation" where
  "spec_validate rules doc =
     \<lparr> valid = (spec_errors rules doc = []),
       errors = spec_errors rules doc,
       score = spec_score (length rules) (length (filter (spec_rule_fails doc) rules)) \<rparr>"

definition doc8 :: jsval where
  "doc8 = JObj [(lit ''mots_cles'', JArr (replicate 5 (JStr (lit ''k''))) []),
                (lit ''problematique'', JStr (lit ''Pourquoi ? ''))]"

section \<open>Evaluation of the parser on a given text\<close>

lemma parse_fuel_Suc:
  "parse_value (numeral k) s = parse_value (Suc (pred_numeral k)) s"
  "parse_elems (numeral k) acc s = parse_elems (Suc (pred_numeral k)) acc s"
  "parse_members (numeral k) ps s = parse_members (Suc (pred_numeral k)) ps s"
  by (simp_all only: numeral_eq_Suc)

lemmas parse_fuel_numeral =
  parse_value.simps(2) [of "pred_numeral k" for k, folded parse_fuel_Suc(1)]
  parse_elems.simps(2) [of "pred_numeral k" for k, folded parse_fuel_Suc(2)]
  parse_members.simps(2) [of "pred_numeral k" for k, folded parse_fuel_Suc(3)]

lemmas parse_eval =
  parseJSON_def lit_def trim_def trimStart_def trimEnd_def at_fence_json_def at_fence_def
  is_space_def repairTruncated_def drop_final_comma_def fill_final_colon_def
  close_final_quote_def JSON_parse_def skip_ws_def is_json_ws_def parse_fuel_numeral
  starts_with_def parse_number_def int_part_def frac_part_def exp_part_def digits1_def
  is_digit_def hex_value_def hex4_def escape_char_def Let_def

section \<open>Property lists, the keys of parsed values, and the steps of an agent\<close>

lemma get_set_prop_list:
  "get_prop_list (set_prop_list ps k v) k' = (if k' = k then v else get_prop_list ps k')"
  by (induction ps) auto

lemma keys_set_prop_list:
  "fst ` set (set_prop_list ps k v) = insert k (fst ` set ps)"
proof (induction ps)
  case Nil
  show ?case by simp
next
  case (Cons p ps)
  obtain k' v' where p: "p = (k', v')" by (cases p)
  show ?case
  proof (cases "k' = k")
    case True
    with p show ?thesis by simp
  next
    case False
    with p Cons show ?thesis by (simp add: insert_commute)
  qed
qed

lemma distinct_set_prop_list:
  "distinct (map fst ps) \<Longrightarrow> distinct (map fst (set_prop_list ps k v))"
proof (induction ps)
  case Nil
  show ?case by simp
next
  case (Cons p ps)
  obtain k' v' where p: "p = (k', v')" by (cases p)
  show ?case
  proof (cases "k' = k")
    case True
    with p Cons.prems show ?thesis by simp
  next
    case False
    with p Cons show ?thesis by (simp add: keys_set_prop_list)
  qed
qed

lemma get_prop_list_absent:
  "k \<notin> fst ` set ps \<Longrightarrow> get_prop_list ps k = JUndefined"
  by (induction ps) auto

lemma get_copy_absent:
  "k \<notin> fst ` set qs \<Longrightarrow>
   get_prop_list (foldl (\<lambda>acc (k, x). set_prop_list acc k x) ps qs) k = get_prop_list ps k"
  by (induction qs arbitrary: ps) (auto simp: get_set_prop_list)

lemma get_copy_present:
  "distinct (map fst qs) \<Longrightarrow> k \<in> fst ` set qs \<Longrightarrow>
   get_prop_list (foldl (\<lambda>acc (k, x). set_prop_list acc k x) ps qs) k = get_prop_list qs k"
proof (induction qs arbitrary: ps)
  case Nil
  then show ?case by simp
next
  case (Cons q qs)
  obtain k' x where q: "q = (k', x)" by (cases q)
  show ?case
  proof (cases "k = k'")
    case True
    with Cons.prems q have "k \<notin> fst ` set qs" by auto
    then show ?thesis
      using q True by (simp add: get_copy_absent get_set_prop_list)
  next
    case False
    with Cons q show ?thesis by auto
  qed
qed

lemma get_copy_empty:
  "distinct (map fst qs) \<Longrightarrow>
   get_prop_list (foldl (\<lambda>acc (k, x). set_prop_list acc k x) [] qs) k = get_prop_list qs k"
  by (cases "k \<in> fst ` set qs")
     (simp_all add: get_copy_present get_copy_absent get_prop_list_absent)

lemma spread2_absent:
  "distinct_keys a \<Longrightarrow> k \<notin> fst ` set (own_props b) \<Longrightarrow>
   get_prop (spread2 a b) k = get_prop a k"
  by (simp add: spread2_def copy_props_def get_prop_def get_copy_absent get_copy_empty
      distinct_keys_def)

lemma spread2_present:
  "distinct_keys b \<Longrightarrow> k \<in> fst ` set (own_props b) \<Longrightarrow>
   get_prop (spread2 a b) k = get_prop b k"
  by (simp add: spread2_def copy_props_def get_prop_def get_copy_present distinct_keys_def)

lemma dec_to_nat_snoc: "dec_to_nat (s @ [c]) = 10 * dec_to_nat s + (c - 48)"
  by (simp add: dec_to_nat_def)

lemma dec_to_nat_inverse: "dec_to_nat (nat_to_dec n) = n"
proof (induction n rule: nat_to_dec.induct)
  case (1 n)
  show ?case
  proof (cases "n < 10")
    case True
    then show ?thesis by (subst nat_to_dec.simps) (simp add: dec_to_nat_def)
  next
    case False
    with 1 have "dec_to_nat (nat_to_dec (n div 10)) = n div 10" by simp
    with False show ?thesis
      by (subst nat_to_dec.simps) (simp add: dec_to_nat_snoc)
  qed
qed

lemma inj_nat_to_dec: "inj nat_to_dec"
  by (rule inj_on_inverseI [where g = dec_to_nat]) (rule dec_to_nat_inverse)

lemma nat_to_dec_digits: "c \<in> set (nat_to_dec n) \<Longrightarrow> 48 \<le> c \<and> c \<le> 57"
proof (induction n rule: nat_to_dec.induct)
  case (1 n)
  show ?case
  proof (cases "n < 10")
    case True
    with 1(2) show ?thesis by (subst (asm) nat_to_dec.simps) simp
  next
    case False
    with 1 show ?thesis
      by (subst (asm) (2) nat_to_dec.simps) auto
  qed
qed

lemma distinct_indices: "distinct (map nat_to_dec [0..<n])"
  by (simp add: distinct_map inj_nat_to_dec [THEN inj_on_subset])

lemma fst_zip_indices:
  "length xs = n \<Longrightarrow> map fst (zip (map nat_to_dec [0..<n]) xs) = map nat_to_dec [0..<n]"
  by simp


lemma distinct_keys_indexed:
  "length xs = n \<Longrightarrow> distinct (map fst (zip (map nat_to_dec [0..<n]) xs))"
  by (simp add: distinct_indices)

lemma parse_elems_array:
  "parse_elems f acc s = Some (v, r) \<Longrightarrow> \<exists>xs. v = JArr xs []"
proof (induction f arbitrary: acc s)
  case 0
  then show ?case by simp
next
  case (Suc f)
  from Suc.prems show ?case
    by (auto split: option.splits list.splits if_splits dest: Suc.IH)
qed

lemma parse_members_distinct:
  "parse_members f acc s = Some (v, r) \<Longrightarrow> distinct (map fst acc) \<Longrightarrow> distinct_keys v"
proof (induction f arbitrary: acc s)
  case 0
  then show ?case by simp
next
  case (Suc f)
  have step: "\<And>k x s'. parse_members f (set_prop_list acc k x) s' = Some (v, r) \<Longrightarrow>
      distinct (map fst (own_props v))"
    using Suc.IH Suc.prems(2) distinct_set_prop_list unfolding distinct_keys_def by blast
  from Suc.prems show ?case
    apply (auto simp: distinct_keys_def distinct_set_prop_list
        split: option.splits list.splits if_splits)
    apply (rule step)
    apply assumption
    done
qed

lemma parse_value_distinct:
  assumes "parse_value f s = Some (v, r)"
  shows "distinct_keys v"
proof (cases f)
  case 0
  with assms show ?thesis by simp
next
  case (Suc f')
  with assms show ?thesis
    by (auto simp: distinct_keys_def distinct_indices
        split: option.splits list.splits if_splits
        dest!: parse_elems_array parse_members_distinct)
qed

lemma JSON_parse_distinct: "JSON_parse t = Some v \<Longrightarrow> distinct_keys v"
  by (auto simp: JSON_parse_def split: option.splits if_splits dest: parse_value_distinct)

lemma parseJSON_distinct: "parseJSON raw = Inr v \<Longrightarrow> distinct_keys v"
  by (auto simp: parseJSON_def Let_def split: option.splits dest: JSON_parse_distinct)

lemma assign_prop_distinct:
  assumes "assign_prop v k x = Inr v'" and "distinct_keys v"
    and "\<exists>c \<in> set k. \<not> (48 \<le> c \<and> c \<le> 57)"
  shows "distinct_keys v'"
proof (cases v)
  case (JObj ps)
  with assms show ?thesis
    by (auto simp: distinct_keys_def distinct_set_prop_list)
next
  case (JArr xs ps)
  have k: "k \<notin> nat_to_dec ` {0..<length xs}"
    using assms(3) nat_to_dec_digits by blast
  from JArr assms(1) have v': "v' = JArr xs (set_prop_list ps k x)" by auto
  from JArr assms(2) have d: "distinct (map fst ps)"
    and dj: "nat_to_dec ` {0..<length xs} \<inter> fst ` set ps = {}"
    by (auto simp: distinct_keys_def)
  show ?thesis
    using d dj k
    by (simp add: v' distinct_keys_def distinct_indices distinct_set_prop_list
        keys_set_prop_list)
qed (use assms in auto)

lemma theme_not_index: "\<exists>c \<in> set (lit ''theme''). \<not> (48 \<le> c \<and> c \<le> 57)"
  by (simp add: lit_def)


lemma attempt_simps:
  "attempt (Inl e) m k = (m, Inl e)"
  "attempt (Inr x) m k = k x"
  by (simp_all add: attempt_def)

lemma and_then_simps:
  "and_then (m, Inl e) k = (m, Inl e)"
  "and_then (m, Inr x) k = k m x"
  by (simp_all add: and_then_def)

lemma attempt_Inr:
  "attempt r m k = (m', Inr y) \<Longrightarrow> \<exists>x. r = Inr x \<and> k x = (m', Inr y)"
  by (cases r) (simp_all add: attempt_def)

lemma and_then_Inr:
  "and_then r k = (m', Inr y) \<Longrightarrow> \<exists>m1 x. r = (m1, Inr x) \<and> k m1 x = (m', Inr y)"
  by (cases r) (auto simp: and_then_def split: sum.splits)

lemma log_fields:
  "theme (log_mem a k m) = theme m" "slug (log_mem a k m) = slug m" "outputDir (log_mem a k m) = outputDir m"
  "prositAller (log_mem a k m) = prositAller m" "prositRetour (log_mem a k m) = prositRetour m"
  "cer (log_mem a k m) = cer m" "files_prositAller (log_mem a k m) = files_prositAller m"
  "files_prositRetour (log_mem a k m) = files_prositRetour m" "files_cer (log_mem a k m) = files_cer m"
  "coherenceWarnings (log_mem a k m) = coherenceWarnings m"
  by (simp_all add: log_mem_def)


lemmas value_eval =
  get_prop_def get_prop_opt_def js_or_def js_coalesce_def nullish_def spread2_def copy_props_def

lemmas validate_eval =
  validate_structure_pa_def validate_structure_pr_def validate_structure_cer_def
  rules_prosit_aller_def rules_prosit_retour_def rules_cer_def
  validate_rules_def array_min_def string_min_def is_question_def object_min_keys_def
  Math_round_def trim_def trimStart_def trimEnd_def is_space_def

lemmas memory_eval =
  createMemory_def slug_of_def or_str_def remove_accents_def is_slug_char_def
  strip_underscores_def ascii_runtime_def ascii_lower_def log_mem_def Let_def

lemma mem_cloud_theme: "theme mem_cloud = lit ''Cloud migration''"
  by (simp add: mem_cloud_def params_cloud_def createMemory_def or_str_def lit_def Let_def)

lemma parse_empty_object: "parseJSON (lit ''{}'') = Inr (JObj [])"
  by (simp add: parse_eval)

lemma parse_theme_A: "parseJSON (lit ''{\"theme\":\"A\"}'') = Inr (JObj [(lit ''theme'', JStr (lit ''A''))])"
  by (simp add: parse_eval)

lemma parse_theme_B: "parseJSON (lit ''{\"theme\":\"B\"}'') = Inr (JObj [(lit ''theme'', JStr (lit ''B''))])"
  by (simp add: parse_eval)

lemma parse_keywords: "parseJSON (lit ''{\"mots_cles\":[]}'') = Inr (JObj [(lit ''mots_cles'', JArr [] [])])"
  by (simp add: parse_eval)


lemma parse_unrelated:
  "parseJSON (lit ''{\"theme\":\"Unrelated topic\"}'') =
     Inr (JObj [(lit ''theme'', JStr (lit ''Unrelated topic''))])"
  by (simp add: parse_eval)

lemma mem_from_pr_fields:
  "prositRetour mem_from_pr = JObj [(lit ''theme'', JStr (lit ''Cloud migration''))]"
  "prositAller mem_from_pr = JNull"
  "coherenceWarnings mem_from_pr = []"
  "theme mem_from_pr = lit ''Cloud migration''"
  by (simp_all add: mem_from_pr_def params_from_pr_def createMemory_def Let_def js_or_def
      or_str_def lit_def)

lemma attempt_keeps:
  "f m = c \<Longrightarrow> (\<And>x. f (fst (k x)) = c) \<Longrightarrow> f (fst (attempt r m k)) = c"
  by (cases r) (simp_all add: attempt_def)

lemma and_then_keeps:
  "f (fst r) = c \<Longrightarrow> (\<And>m x. f m = c \<Longrightarrow> f (fst (k m x)) = c) \<Longrightarrow> f (fst (and_then r k)) = c"
  by (cases r) (auto simp: and_then_def split: sum.splits)

lemma if_keeps:
  "(b \<Longrightarrow> f (fst x) = c) \<Longrightarrow> (\<not> b \<Longrightarrow> f (fst y) = c) \<Longrightarrow> f (fst (if b then x else y)) = c"
  by simp

lemma llm_down_fails:
  "snd (Agent1_runAgent rt env_llm_down onLog m) = Inl (External (lit ''quota''))"
  "truthy rt (prositAller m) \<Longrightarrow> snd (Agent2_runAgent rt env_llm_down onLog m) = Inl (External (lit ''quota''))"
  "snd (Agent3_runAgent rt env_llm_down onLog m) = Inl (External (lit ''quota''))"
  by (simp_all add: Agent1_runAgent_def Agent2_runAgent_def Agent3_runAgent_def env_llm_down_def
      attempt_simps Let_def)

lemma mem_cloud_path:
  "path_join ascii_runtime (outputDir mem_cloud) (lit ''01_Prosit_Aller_'' @ slug mem_cloud @ lit ''.docx'') =
     lit ''out/01_Prosit_Aller_cloud_migration.docx''"
  by (simp add: mem_cloud_def params_cloud_def memory_eval lit_def)

lemma run_intro_fields:
  "outputDir (run_intro m) = outputDir m" "slug (run_intro m) = slug m"
  "prositAller (run_intro m) = prositAller m" "prositRetour (run_intro m) = prositRetour m"
  by (simp_all add: run_intro_def log_fields)

section \<open>The repair pass merges the reply over the document\<close>

lemma Agent1_repair_result:
  assumes "Agent1_runAgent rt env (log_mem a) m = (m', Inr doc)"
    and "draft_reply env = Inr rawDraft" and "parseJSON rawDraft = Inr d0"
    and "assign_prop d0 (lit ''theme'') (js_or rt (get_prop d0 (lit ''theme'')) (JStr (theme m))) = Inr d1"
    and "validate_structure_pa d1 = Inr v1" and "\<not> valid v1"
    and "repair_reply env = Inr rawFixed" and "parseJSON rawFixed = Inr fixed"
  shows "doc = spread2 d1 fixed"
  using assms
  unfolding Agent1_runAgent_def Let_def
  by (auto simp: attempt_simps and_then_simps log_fields dest!: attempt_Inr and_then_Inr)


lemma Agent2_repair_result:
  assumes "Agent2_runAgent rt env (log_mem a) m = (m', Inr doc)"
    and "draft_reply env = Inr rawDraft" and "parseJSON rawDraft = Inr d0"
    and "assign_prop d0 (lit ''theme'')
           (js_or rt (get_prop d0 (lit ''theme'')) (get_prop (prositAller m) (lit ''theme''))) = Inr d1"
    and "validate_structure_pr d1 = Inr v1" and "\<not> valid v1"
    and "repair_reply env = Inr rawFixed" and "parseJSON rawFixed = Inr fixed"
  shows "doc = spread2 d1 fixed"
  using assms
  unfolding Agent2_runAgent_def Let_def
  by (auto simp: attempt_simps and_then_simps log_fields split: if_splits
      dest!: attempt_Inr and_then_Inr)

lemma Agent3_repair_result:
  assumes "Agent3_runAgent rt env (log_mem a) m = (m', Inr doc)"
    and "draft_reply env = Inr rawDraft" and "parseJSON rawDraft = Inr d0"
    and "assign_prop d0 (lit ''theme'')
           (js_or rt (js_or rt (get_prop d0 (lit ''theme''))
              (get_prop (if truthy rt (prositRetour m) then prositRetour m
                         else js_or rt (prositAller m) (JObj [])) (lit ''theme'')))
              (JStr (theme m))) = Inr d1"
    and "validate_structure_cer d1 = Inr v1" and "\<not> valid v1"
    and "repair_reply env = Inr rawFixed" and "parseJSON rawFixed = Inr fixed"
  shows "doc = spread2 d1 fixed"
  using assms
  unfolding Agent3_runAgent_def Let_def
  by (auto simp: attempt_simps and_then_simps log_fields split: if_splits
      dest!: attempt_Inr and_then_Inr)

text \<open>
  C2, amended. When a stage repairs its document, the document it ends with has, for
  every field of the object parsed from the repair reply, the value of the reply, and
  for every other field the value it had before the repair. (The fields are the own
  enumerable properties; for Agent 1 the case is the first of the three, and so on.)
\<close>

theorem repair_overrides_fields_of_reply:
  assumes "draft_reply env = Inr rawDraft" and "parseJSON rawDraft = Inr d0"
    and "repair_reply env = Inr rawFixed" and "parseJSON rawFixed = Inr fixed"
    and "\<not> valid v1"
    and "(Agent1_runAgent rt env (log_mem a) m = (m', Inr doc) \<and>
          assign_prop d0 (lit ''theme'')
            (js_or rt (get_prop d0 (lit ''theme'')) (JStr (theme m))) = Inr d1 \<and>
          validate_structure_pa d1 = Inr v1) \<or>
         (Agent2_runAgent rt env (log_mem a) m = (m', Inr doc) \<and>
          assign_prop d0 (lit ''theme'')
            (js_or rt (get_prop d0 (lit ''theme'')) (get_prop (prositAller m) (lit ''theme''))) = Inr d1 \<and>
          validate_structure_pr d1 = Inr v1) \<or>
         (Agent3_runAgent rt env (log_mem a) m = (m', Inr doc) \<and>
          assign_prop d0 (lit ''theme'')
            (js_or rt (js_or rt (get_prop d0 (lit ''theme''))
               (get_prop (if truthy rt (prositRetour m) then prositRetour m
                          else js_or rt (prositAller m) (JObj [])) (lit ''theme'')))
               (JStr (theme m))) = Inr d1 \<and>
          validate_structure_cer d1 = Inr v1)"
  shows "get_prop doc k =
           (if k \<in> fst ` set (own_props fixed) then get_prop fixed k else get_prop d1 k)"
proof -
  note common = assms(1,2) assms(5) assms(3,4)
  from assms(6) have doc: "doc = spread2 d1 fixed"
  proof (elim disjE conjE)
    assume "Agent1_runAgent rt env (log_mem a) m = (m', Inr doc)"
      and "assign_prop d0 (lit ''theme'')
            (js_or rt (get_prop d0 (lit ''theme'')) (JStr (theme m))) = Inr d1"
      and "validate_structure_pa d1 = Inr v1"
    then show ?thesis
      using common by (intro Agent1_repair_result)
  next
    assume "Agent2_runAgent rt env (log_mem a) m = (m', Inr doc)"
      and "assign_prop d0 (lit ''theme'')
            (js_or rt (get_prop d0 (lit ''theme'')) (get_prop (prositAller m) (lit ''theme''))) = Inr d1"
      and "validate_structure_pr d1 = Inr v1"
    then show ?thesis
      using common by (intro Agent2_repair_result)
  next
    assume "Agent3_runAgent rt env (log_mem a) m = (m', Inr doc)"
      and "assign_prop d0 (lit ''theme'')
            (js_or rt (js_or rt (get_prop d0 (lit ''theme''))
               (get_prop (if truthy rt (prositRetour m) then prositRetour m
                          else js_or rt (prositAller m) (JObj [])) (lit ''theme'')))
               (JStr (theme m))) = Inr d1"
      and "validate_structure_cer d1 = Inr v1"
    then show ?thesis
      using common by (intro Agent3_repair_result)
  qed
  have d0: "distinct_keys d0" and fx: "distinct_keys fixed"
    using assms(2,4) by (auto dest: parseJSON_distinct)
  from assms(6) d0 have d1: "distinct_keys d1"
    using assign_prop_distinct [OF _ _ theme_not_index] by blast
  show ?thesis
    unfolding doc using d1 fx by (simp add: spread2_absent spread2_present)
qed

lemma validate_theme_A:
  "validate_structure_pa (JObj [(lit ''theme'', JStr (lit ''A''))]) =
     Inr \<lparr> valid = False, errors = map rule_message rules_prosit_aller, score = 0 \<rparr>"
  by (simp add: rule_message_def validate_eval value_eval lit_def)

lemma run_repair_theme:
  "snd (Agent1_runAgent ascii_runtime env_repair_theme (log_mem Agent1) mem_cloud) =
     Inr (JObj [(lit ''theme'', JStr (lit ''B''))])"
  unfolding Agent1_runAgent_def env_repair_theme_def Let_def
  apply (simp only: stage_env.simps attempt_simps parse_empty_object parse_theme_A parse_theme_B)
  apply (simp add: attempt_simps and_then_simps value_eval validate_theme_A)
  apply (simp add: validate_eval value_eval attempt_simps and_then_simps lit_def)
  done

text \<open>
  C2, as stated, fails: the document \<open>{"theme":"A"}\<close> fails the eight rules, none of which
  names \<open>theme\<close>; the repair reply \<open>{"theme":"B"}\<close> replaces the theme all the same.
\<close>

theorem repair_changes_unflagged_field_counterexample:
  "parseJSON (lit ''{\"theme\":\"A\"}'') = Inr (JObj [(lit ''theme'', JStr (lit ''A''))]) \<and>
   validate_structure_pa (JObj [(lit ''theme'', JStr (lit ''A''))]) =
     Inr \<lparr> valid = False, errors = map rule_message rules_prosit_aller, score = 0 \<rparr> \<and>
   list_all (\<lambda>e. \<not> js_includes e (lit ''theme'')) (map rule_message rules_prosit_aller) \<and>
   snd (Agent1_runAgent ascii_runtime env_repair_theme (log_mem Agent1) mem_cloud) =
     Inr (JObj [(lit ''theme'', JStr (lit ''B''))])"
proof -
  have "list_all (\<lambda>e. \<not> js_includes e (lit ''theme'')) (map rule_message rules_prosit_aller)"
    by (simp add: rules_prosit_aller_def rule_message_def starts_with_def lit_def)
  then show ?thesis
    using parse_theme_A validate_theme_A run_repair_theme by simp
qed

lemma run_repair_keywords:
  "snd (Agent1_runAgent ascii_runtime env_repair_keywords (log_mem Agent1) m) =
     Inr (JObj [(lit ''theme'', JStr (lit ''A'')), (lit ''mots_cles'', JArr [] [])])"
  unfolding Agent1_runAgent_def env_repair_keywords_def Let_def
  apply (simp only: stage_env.simps attempt_simps parse_empty_object parse_theme_A parse_keywords)
  apply (simp add: attempt_simps and_then_simps value_eval validate_theme_A)
  apply (simp add: validate_eval value_eval attempt_simps and_then_simps lit_def)
  done

theorem repair_overrides_fields_of_reply_witness:
  "snd (Agent1_runAgent ascii_runtime env_repair_keywords (log_mem Agent1) mem_cloud) =
     Inr (JObj [(lit ''theme'', JStr (lit ''A'')), (lit ''mots_cles'', JArr [] [])]) \<and>
   get_prop (JObj [(lit ''theme'', JStr (lit ''A'')), (lit ''mots_cles'', JArr [] [])]) (lit ''theme'') =
     JStr (lit ''A'') \<and>
   get_prop (JObj [(lit ''theme'', JStr (lit ''A'')), (lit ''mots_cles'', JArr [] [])]) (lit ''mots_cles'') =
     JArr [] []"
proof -
  let ?doc = "JObj [(lit ''theme'', JStr (lit ''A'')), (lit ''mots_cles'', JArr [] [])]"
  let ?d1 = "JObj [(lit ''theme'', JStr (lit ''A''))]"
  let ?fixed = "JObj [(lit ''mots_cles'', JArr [] [])]"
  let ?v1 = "\<lparr> valid = False, errors = map rule_message rules_prosit_aller, score = 0 \<rparr>"
  obtain m' where run: "Agent1_runAgent ascii_runtime env_repair_keywords (log_mem Agent1) mem_cloud = (m', Inr ?doc)"
    using run_repair_keywords [of mem_cloud] by (metis prod.collapse)
  have a: "assign_prop ?d1 (lit ''theme'')
            (js_or ascii_runtime (get_prop ?d1 (lit ''theme'')) (JStr (theme mem_cloud))) = Inr ?d1"
    by (simp add: value_eval lit_def)
  have stage: "Agent1_runAgent ascii_runtime env_repair_keywords (log_mem Agent1) mem_cloud = (m', Inr ?doc) \<and>
      assign_prop ?d1 (lit ''theme'')
        (js_or ascii_runtime (get_prop ?d1 (lit ''theme'')) (JStr (theme mem_cloud))) = Inr ?d1 \<and>
      validate_structure_pa ?d1 = Inr ?v1"
    using run a validate_theme_A by simp
  have f1: "draft_reply env_repair_keywords = Inr (lit ''{\"theme\":\"A\"}'')"
    and f3: "repair_reply env_repair_keywords = Inr (lit ''{\"mots_cles\":[]}'')"
    by (simp_all add: env_repair_keywords_def)
  have f5: "\<not> valid ?v1" by simp
  note k = repair_overrides_fields_of_reply
    [OF f1 parse_theme_A f3 parse_keywords f5 disjI1 [OF stage]]
  from k [of "lit ''theme''"] k [of "lit ''mots_cles''"] run_repair_keywords [of mem_cloud] show ?thesis
    by (simp add: value_eval lit_def)
qed

section \<open>A plan that cannot be extracted\<close>




section \<open>check\_coherence: a downstream that is null, and the count of validations\<close>

lemmas coherence_eval =
  check_coherence_def js_or_def get_prop_def get_prop_opt_def nullish_def ascii_runtime_def
  array_length_or_0_def starts_with_def Let_def lit_def msg_pa_absent_def msg_theme_def
  msg_count_def msg_missing_def nat_to_dec.simps ascii_lower_def

text \<open>
  C3. With a downstream that is \<open>null\<close>, check\_coherence still compares the keywords of
  the upstream with the (empty) set of defined terms: for an upstream document with
  three keywords it returns \<open>coherent = false\<close> and one issue, although the upstream is
  present.
\<close>

theorem check_coherence_null_downstream_keywords:
  "check_coherence ascii_runtime pa_three_keywords JNull =
     Inr \<lparr> coherent = False,
           issues = [lit ''Mots cl'' @ [233] @ lit ''s PA non d'' @ [233] @
                     lit ''finis dans PR : alpha, beta, gamma''] \<rparr>"
  by (simp add: pa_three_keywords_def coherence_eval)





section \<open>Stage 3 and the coherence warnings\<close>

lemma validate_cer_theme_only:
  "validate_structure_cer (JObj [(lit ''theme'', JStr x)]) =
     Inr \<lparr> valid = False, errors = map rule_message rules_cer, score = 0 \<rparr>"
  by (simp add: rule_message_def validate_eval value_eval lit_def)

lemma run_cer_unrelated:
  "snd (Agent3_runAgent ascii_runtime env_cer_unrelated (log_mem Agent3) mem_from_pr) =
     Inr (JObj [(lit ''theme'', JStr (lit ''Unrelated topic''))]) \<and>
   coherenceWarnings (fst (Agent3_runAgent ascii_runtime env_cer_unrelated (log_mem Agent3) mem_from_pr)) = []"
  unfolding Agent3_runAgent_def env_cer_unrelated_def Let_def
  apply (simp only: stage_env.simps attempt_simps parse_empty_object parse_unrelated)
  apply (simp add: attempt_simps and_then_simps value_eval log_fields mem_from_pr_fields
      analyze_memory_def validate_cer_theme_only)
  apply (simp add: attempt_simps and_then_simps value_eval log_fields mem_from_pr_fields
      validate_eval lit_def)
  done

lemma coherence_unrelated:
  "check_coherence ascii_runtime (JObj [(lit ''theme'', JStr (lit ''Cloud migration''))])
     (JObj [(lit ''theme'', JStr (lit ''Unrelated topic''))]) =
   Inr \<lparr> coherent = False,
         issues = [lit ''Th'' @ [232] @ lit ''me incoh'' @ [233] @
                   lit ''rent : PA=\"Cloud migration\" vs PR=\"Unrelated topic\"''] \<rparr>"
  by (simp add: coherence_eval)

text \<open>
  C5, as stated, fails: with the Prosit Retour "Cloud migration" in the shared memory,
  stage 3 returns a CER on an unrelated topic, which check\_coherence would flag against
  that upstream, and the list of warnings is still empty.
\<close>

theorem stage3_runs_no_coherence_check_counterexample:
  "prositRetour mem_from_pr = JObj [(lit ''theme'', JStr (lit ''Cloud migration''))] \<and>
   snd (Agent3_runAgent ascii_runtime env_cer_unrelated (log_mem Agent3) mem_from_pr) =
     Inr (JObj [(lit ''theme'', JStr (lit ''Unrelated topic''))]) \<and>
   check_coherence ascii_runtime (JObj [(lit ''theme'', JStr (lit ''Cloud migration''))])
     (JObj [(lit ''theme'', JStr (lit ''Unrelated topic''))]) =
     Inr \<lparr> coherent = False,
           issues = [lit ''Th'' @ [232] @ lit ''me incoh'' @ [233] @
                     lit ''rent : PA=\"Cloud migration\" vs PR=\"Unrelated topic\"''] \<rparr> \<and>
   coherenceWarnings (fst (Agent3_runAgent ascii_runtime env_cer_unrelated (log_mem Agent3) mem_from_pr)) = []"
  using mem_from_pr_fields(1) run_cer_unrelated coherence_unrelated by simp

text \<open>
  C5, amended. Whenever stage 3 executes, whatever the shared memory holds and whether
  the stage returns or throws, it leaves the list of coherence warnings as it found it:
  stage 3 runs no coherence check, it only reads the warnings of stage 2.
\<close>

theorem Agent3_keeps_coherence_warnings:
  "coherenceWarnings (fst (Agent3_runAgent rt env (log_mem a) m)) = coherenceWarnings m"
  unfolding Agent3_runAgent_def Let_def
  by (intro attempt_keeps [where f = coherenceWarnings] and_then_keeps [where f = coherenceWarnings]
        if_keeps [where f = coherenceWarnings])
     (simp_all add: log_fields)


theorem Agent3_keeps_coherence_warnings_witness:
  "coherenceWarnings (fst (Agent3_runAgent ascii_runtime env_cer_unrelated (log_mem Agent3) mem_from_pr)) =
     coherenceWarnings mem_from_pr \<and>
   coherenceWarnings mem_from_pr = []"
  using Agent3_keeps_coherence_warnings [of ascii_runtime env_cer_unrelated Agent3 mem_from_pr]
  by (simp add: mem_from_pr_fields)

section \<open>The extractor never throws an error of another kind\<close>

text \<open>
  C7. Whatever the text and the point where it is cut, parseJSON either throws the error
  "Aucun JSON trouve", or the SyntaxError of the second \<open>JSON.parse\<close> (the repair did not
  help), or returns a value that \<open>JSON.parse\<close> gave for some text. This holds for every
  string, hence for the prefixes of a valid JSON text.
\<close>

theorem parseJSON_truncation_closed:
  "parseJSON (take k s) = Inl (Error no_json_msg) \<or>
   parseJSON (take k s) = Inl SyntaxError \<or>
   (\<exists>v t. parseJSON (take k s) = Inr v \<and> JSON_parse t = Some v)"
  unfolding parseJSON_def Let_def
  by (simp split: option.split) blast

theorem parseJSON_truncation_closed_witness:
  "parseJSON (take 9 (lit ''{\"a\": \"bcd\"}'')) = Inr (JObj [(lit ''a'', JStr (lit ''...''))]) \<and>
   (parseJSON (take 9 (lit ''{\"a\": \"bcd\"}'')) = Inl (Error no_json_msg) \<or>
    parseJSON (take 9 (lit ''{\"a\": \"bcd\"}'')) = Inl SyntaxError \<or>
    (\<exists>v t. parseJSON (take 9 (lit ''{\"a\": \"bcd\"}'')) = Inr v \<and> JSON_parse t = Some v))"
  using parseJSON_truncation_closed [of 9 "lit ''{\"a\": \"bcd\"}''"]
  by (simp add: parse_eval)

section \<open>validate\_structure against the specification\<close>

lemma spec_rule_fails_code:
  "(\<lambda>r. \<not> check r (js_coalesce (get_prop data (field r)) (JStr []))) = spec_rule_fails data"
  by (rule ext) (simp add: spec_rule_fails_def js_coalesce_def nullish_def)

lemma spec_score_code:
  "Math_round ((real (n - e) / real n) * 100) = spec_score n e"
  by (simp add: Math_round_def spec_score_def round_def mult.commute)

lemma rule_message_code: "(\<lambda>r. [91] @ field r @ [93, 32] @ msg r) = rule_message"
  by (rule ext) (simp add: rule_message_def lit_def)

lemma validate_rules_spec:
  assumes "\<not> nullish data"
  shows "validate_rules rules data = Inr (spec_validate rules data)"
proof -
  have v: "(length (spec_errors rules data) = 0) = (spec_errors rules data = [])"
    by simp
  have l: "length (spec_errors rules data) = length (filter (spec_rule_fails data) rules)"
    by (simp add: spec_errors_def)
  show ?thesis
    unfolding validate_rules_def Let_def spec_rule_fails_code rule_message_code
      spec_score_code spec_validate_def
    unfolding spec_errors_def [symmetric] v l
    using assms by (simp add: spec_errors_def)
qed

text \<open>
  C8. For a document that is an object (any value but \<open>null\<close> and \<open>undefined\<close>), each of the
  three functions validate\_structure returns, and never throws: the errors are the
  messages of exactly the rules whose predicate fails on the field (the empty string
  when the field is missing), in the order of the table; the score is
  \<open>round(100 * (totalRules - failedRules) / totalRules)\<close>; \<open>valid\<close> holds when there is no
  error. The result is a function of the document alone.
\<close>

theorem validate_structure_refines_spec:
  "\<not> nullish data \<Longrightarrow>
     validate_structure_pa data = Inr (spec_validate rules_prosit_aller data) \<and>
     validate_structure_pr data = Inr (spec_validate rules_prosit_retour data) \<and>
     validate_structure_cer data = Inr (spec_validate rules_cer data)"
  by (simp add: validate_structure_pa_def validate_structure_pr_def validate_structure_cer_def
      validate_rules_spec)

theorem validate_structure_refines_spec_witness:
  "\<not> nullish doc8 \<and>
   validate_structure_pa doc8 = Inr (spec_validate rules_prosit_aller doc8) \<and>
   valid (spec_validate rules_prosit_aller doc8) = False \<and>
   length (errors (spec_validate rules_prosit_aller doc8)) = 7 \<and>
   score (spec_validate rules_prosit_aller doc8) = 13"
proof -
  have n: "\<not> nullish doc8"
    by (simp add: doc8_def nullish_def)
  have e: "validate_structure_pa doc8 =
      Inr \<lparr> valid = False,
            errors = map rule_message
              [rules_prosit_aller ! 0, rules_prosit_aller ! 1, rules_prosit_aller ! 2,
               rules_prosit_aller ! 4, rules_prosit_aller ! 5, rules_prosit_aller ! 6,
               rules_prosit_aller ! 7],
            score = 13 \<rparr>"
    by (simp add: doc8_def validate_structure_pa_def validate_rules_def rules_prosit_aller_def
        nullish_def get_prop_def js_coalesce_def lit_def array_min_def string_min_def
        is_question_def trim_def trimStart_def trimEnd_def is_space_def Math_round_def
        rule_message_def)
  from validate_structure_refines_spec [OF n] e
  have "spec_validate rules_prosit_aller doc8 =
      \<lparr> valid = False,
        errors = map rule_message
          [rules_prosit_aller ! 0, rules_prosit_aller ! 1, rules_prosit_aller ! 2,
           rules_prosit_aller ! 4, rules_prosit_aller ! 5, rules_prosit_aller ! 6,
           rules_prosit_aller ! 7],
        score = 13 \<rparr>"
    by simp
  with validate_structure_refines_spec [OF n] n show ?thesis
    by simp
qed

section \<open>run propagates the error of a stage\<close>

lemma Agent3_frame_tuple:
  "(\<lambda>m. (prositAller m, prositRetour m, files_prositAller m, files_prositRetour m))
     (fst (Agent3_runAgent rt env (log_mem a) m)) =
   (prositAller m, prositRetour m, files_prositAller m, files_prositRetour m)"
  unfolding Agent3_runAgent_def Let_def
  by (intro attempt_keeps [where f = "\<lambda>m. (prositAller m, prositRetour m, files_prositAller m, files_prositRetour m)"]
        and_then_keeps [where f = "\<lambda>m. (prositAller m, prositRetour m, files_prositAller m, files_prositRetour m)"]
        if_keeps [where f = "\<lambda>m. (prositAller m, prositRetour m, files_prositAller m, files_prositRetour m)"])
     (simp_all add: log_fields)

lemma Agent2_frame_tuple:
  "(\<lambda>m. (prositAller m, files_prositAller m))
     (fst (Agent2_runAgent rt env (log_mem a) m)) =
   (prositAller m, files_prositAller m)"
  unfolding Agent2_runAgent_def Let_def
  by (intro attempt_keeps [where f = "\<lambda>m. (prositAller m, files_prositAller m)"]
        and_then_keeps [where f = "\<lambda>m. (prositAller m, files_prositAller m)"]
        if_keeps [where f = "\<lambda>m. (prositAller m, files_prositAller m)"])
     (simp_all add: log_fields)


lemma Agent1_success_writes:
  assumes "Agent1_runAgent rt env (log_mem a) m = (m', Inr doc)"
  shows "prositAller m' = doc \<and>
         files_prositAller m' =
           Some (path_join rt (outputDir m) (lit ''01_Prosit_Aller_'' @ slug m @ lit ''.docx''))"
  using assms
  unfolding Agent1_runAgent_def Let_def
  by (auto simp: attempt_simps and_then_simps log_fields log_mem_def split: if_splits
      dest!: attempt_Inr and_then_Inr)

lemma run_stage1_error:
  assumes "mode = lit ''full''"
    and "A1 (log_mem Agent1) (log_mem Orchestrator Action (run_intro m)) = (m1, Inl e)"
  shows "run A1 A2 A3 (Inr ()) m mode skipPR = (m1, Inl e)"
  using assms by (simp add: run_def run_agent1_def attempt_simps and_then_simps)

lemma run_stage2_error:
  assumes "run_agent1 A1 mode (run_intro m) = (m1, Inr ())"
    and "mode \<noteq> lit ''from_pr''" and "\<not> skipPR"
    and "A2 (log_mem Agent2) (log_mem Orchestrator Action m1) = (m2, Inl e)"
  shows "run A1 A2 A3 (Inr ()) m mode skipPR = (m2, Inl e)"
  using assms by (simp add: run_def run_agent2_def attempt_simps and_then_simps)

lemma run_stage3_error:
  assumes "run_agent1 A1 mode (run_intro m) = (m1, Inr ())"
    and "run_agent2 A2 mode skipPR m1 = (m2, Inr ())"
    and "A3 (log_mem Agent3) (log_mem Orchestrator Action m2) = (m3, Inl e)"
  shows "run A1 A2 A3 (Inr ()) m mode skipPR = (m3, Inl e)"
  using assms by (simp add: run_def run_agent3_def attempt_simps and_then_simps)

text \<open>
  C9. When a stage throws, run throws the same error and leaves the memory as the stage
  left it: the result does not depend on what the later stages would do (they are not
  invoked), and the documents and file paths that the earlier stages wrote are still
  in the memory. The three parts are for a throw in stage 1, stage 2 and stage 3.
\<close>

theorem pipeline_propagates_stage_error:
  assumes "env_mkdir env = Inr ()"
  shows
    "(mode = lit ''full'' \<and>
      Agent1_runAgent rt (env_agent1 env) (log_mem Agent1)
        (log_mem Orchestrator Action (run_intro m)) = (m1, Inl e1)
      \<longrightarrow> pipeline rt env m mode skipPR = (m1, Inl e1) \<and>
          pipeline rt (env\<lparr>env_agent2 := x2, env_agent3 := x3\<rparr>) m mode skipPR = (m1, Inl e1)) \<and>
     (run_agent1 (Agent1_runAgent rt (env_agent1 env)) mode (run_intro m) = (n1, Inr ()) \<and>
      mode \<noteq> lit ''from_pr'' \<and> \<not> skipPR \<and>
      Agent2_runAgent rt (env_agent2 env) (log_mem Agent2) (log_mem Orchestrator Action n1) = (m2, Inl e2)
      \<longrightarrow> pipeline rt env m mode skipPR = (m2, Inl e2) \<and>
          pipeline rt (env\<lparr>env_agent3 := x3\<rparr>) m mode skipPR = (m2, Inl e2) \<and>
          prositAller m2 = prositAller n1 \<and> files_prositAller m2 = files_prositAller n1) \<and>
     (run_agent1 (Agent1_runAgent rt (env_agent1 env)) mode (run_intro m) = (n1, Inr ()) \<and>
      run_agent2 (Agent2_runAgent rt (env_agent2 env)) mode skipPR n1 = (n2, Inr ()) \<and>
      Agent3_runAgent rt (env_agent3 env) (log_mem Agent3) (log_mem Orchestrator Action n2) = (m3, Inl e3)
      \<longrightarrow> pipeline rt env m mode skipPR = (m3, Inl e3) \<and>
          prositAller m3 = prositAller n2 \<and> prositRetour m3 = prositRetour n2 \<and>
          files_prositAller m3 = files_prositAller n2 \<and>
          files_prositRetour m3 = files_prositRetour n2)"
proof (intro conjI impI; (elim conjE)?)
  assume "mode = lit ''full''"
    and "Agent1_runAgent rt (env_agent1 env) (log_mem Agent1)
           (log_mem Orchestrator Action (run_intro m)) = (m1, Inl e1)"
  then show "pipeline rt env m mode skipPR = (m1, Inl e1)"
    and "pipeline rt (env\<lparr>env_agent2 := x2, env_agent3 := x3\<rparr>) m mode skipPR = (m1, Inl e1)"
    using assms by (simp_all add: pipeline_def run_stage1_error)
next
  assume s1: "run_agent1 (Agent1_runAgent rt (env_agent1 env)) mode (run_intro m) = (n1, Inr ())"
    and md: "mode \<noteq> lit ''from_pr''" "\<not> skipPR"
    and a2: "Agent2_runAgent rt (env_agent2 env) (log_mem Agent2) (log_mem Orchestrator Action n1) = (m2, Inl e2)"
  from s1 md a2 show "pipeline rt env m mode skipPR = (m2, Inl e2)"
    using assms by (simp add: pipeline_def run_stage2_error)
  from s1 md a2 show "pipeline rt (env\<lparr>env_agent3 := x3\<rparr>) m mode skipPR = (m2, Inl e2)"
    using assms by (simp add: pipeline_def run_stage2_error)
  from Agent2_frame_tuple [of rt "env_agent2 env" Agent2 "log_mem Orchestrator Action n1"] a2
  show "prositAller m2 = prositAller n1" and "files_prositAller m2 = files_prositAller n1"
    by (simp_all add: log_fields)
next
  assume s1: "run_agent1 (Agent1_runAgent rt (env_agent1 env)) mode (run_intro m) = (n1, Inr ())"
    and s2: "run_agent2 (Agent2_runAgent rt (env_agent2 env)) mode skipPR n1 = (n2, Inr ())"
    and a3: "Agent3_runAgent rt (env_agent3 env) (log_mem Agent3) (log_mem Orchestrator Action n2) = (m3, Inl e3)"
  from s1 s2 a3 show "pipeline rt env m mode skipPR = (m3, Inl e3)"
    using assms by (simp add: pipeline_def run_stage3_error)
  from Agent3_frame_tuple [of rt "env_agent3 env" Agent3 "log_mem Orchestrator Action n2"] a3
  show "prositAller m3 = prositAller n2" and "prositRetour m3 = prositRetour n2"
    and "files_prositAller m3 = files_prositAller n2"
    and "files_prositRetour m3 = files_prositRetour n2"
    by (simp_all add: log_fields)
qed

theorem pipeline_propagates_stage_error_witness:
  "snd (pipeline ascii_runtime env_stage1_down mem_cloud (lit ''full'') False) =
     Inl (External (lit ''quota'')) \<and>
   (\<exists>m2. pipeline ascii_runtime env_stage2_down mem_cloud (lit ''full'') False =
      (m2, Inl (External (lit ''quota''))) \<and>
      prositAller m2 = JObj [(lit ''theme'', JStr (lit ''A'')), (lit ''mots_cles'', JArr [] [])] \<and>
      files_prositAller m2 = Some (lit ''out/01_Prosit_Aller_cloud_migration.docx'')) \<and>
   (\<exists>m3. pipeline ascii_runtime env_stage3_down mem_from_pr (lit ''from_pr'') False =
      (m3, Inl (External (lit ''quota''))) \<and>
      prositRetour m3 = JObj [(lit ''theme'', JStr (lit ''Cloud migration''))])"
proof (intro conjI)
  let ?doc = "JObj [(lit ''theme'', JStr (lit ''A'')), (lit ''mots_cles'', JArr [] [])]"
  let ?q = "External (lit ''quota'')"
  have mk: "env_mkdir env_stage1_down = Inr ()" "env_mkdir env_stage2_down = Inr ()"
    "env_mkdir env_stage3_down = Inr ()"
    by (simp_all add: env_stage1_down_def env_stage2_down_def env_stage3_down_def)
  \<comment> \<open>stage 1 throws\<close>
  obtain m1 where a1: "Agent1_runAgent ascii_runtime (env_agent1 env_stage1_down) (log_mem Agent1)
      (log_mem Orchestrator Action (run_intro mem_cloud)) = (m1, Inl ?q)"
    using llm_down_fails(1) [of ascii_runtime "log_mem Agent1" "log_mem Orchestrator Action (run_intro mem_cloud)"]
    by (metis env_stage1_down_def prod.collapse run_env.select_convs(2))
  from pipeline_propagates_stage_error [OF mk(1), of "lit ''full''" ascii_runtime mem_cloud m1 ?q False]
    a1
  show "snd (pipeline ascii_runtime env_stage1_down mem_cloud (lit ''full'') False) = Inl ?q"
    by simp
  \<comment> \<open>stage 2 throws after stage 1 has written its document and its file\<close>
  obtain k1 where b1: "Agent1_runAgent ascii_runtime (env_agent1 env_stage2_down) (log_mem Agent1)
      (log_mem Orchestrator Action (run_intro mem_cloud)) = (k1, Inr ?doc)"
    using run_repair_keywords [of "log_mem Orchestrator Action (run_intro mem_cloud)"]
    by (metis env_stage2_down_def prod.collapse run_env.select_convs(2))
  from Agent1_success_writes [OF b1]
  have w: "prositAller k1 = ?doc"
    "files_prositAller k1 = Some (lit ''out/01_Prosit_Aller_cloud_migration.docx'')"
    by (simp_all add: log_fields run_intro_fields mem_cloud_path)
  let ?n1 = "log_mem Orchestrator Observation k1"
  have s1: "run_agent1 (Agent1_runAgent ascii_runtime (env_agent1 env_stage2_down)) (lit ''full'')
      (run_intro mem_cloud) = (?n1, Inr ())"
    using b1 by (simp add: run_agent1_def and_then_simps)
  have t: "truthy ascii_runtime (prositAller (log_mem Orchestrator Action ?n1))"
    using w by (simp add: log_fields)
  obtain m2 where b2: "Agent2_runAgent ascii_runtime (env_agent2 env_stage2_down) (log_mem Agent2)
      (log_mem Orchestrator Action ?n1) = (m2, Inl ?q)"
    using llm_down_fails(2) [OF t, of "log_mem Agent2"]
    by (metis env_stage2_down_def prod.collapse run_env.select_convs(3))
  have md: "lit ''full'' \<noteq> lit ''from_pr''" by (simp add: lit_def)
  from pipeline_propagates_stage_error [OF mk(2), of "lit ''full''" ascii_runtime mem_cloud _ _ False _ _ ?n1 m2 ?q]
    s1 b2 md w
  have "pipeline ascii_runtime env_stage2_down mem_cloud (lit ''full'') False = (m2, Inl ?q) \<and>
      prositAller m2 = ?doc \<and>
      files_prositAller m2 = Some (lit ''out/01_Prosit_Aller_cloud_migration.docx'')"
    by (simp add: log_fields)
  then show "\<exists>m2. pipeline ascii_runtime env_stage2_down mem_cloud (lit ''full'') False =
      (m2, Inl ?q) \<and> prositAller m2 = ?doc \<and>
      files_prositAller m2 = Some (lit ''out/01_Prosit_Aller_cloud_migration.docx'')"
    by blast
  \<comment> \<open>stage 3 throws in the mode from\_pr\<close>
  let ?p1 = "log_mem Orchestrator Observation (run_intro mem_from_pr)"
  let ?p2 = "log_mem Orchestrator Observation ?p1"
  have c1: "run_agent1 (Agent1_runAgent ascii_runtime (env_agent1 env_stage3_down)) (lit ''from_pr'')
      (run_intro mem_from_pr) = (?p1, Inr ())"
    using md by (simp add: run_agent1_def)
  have c2: "run_agent2 (Agent2_runAgent ascii_runtime (env_agent2 env_stage3_down)) (lit ''from_pr'') False
      ?p1 = (?p2, Inr ())"
    by (simp add: run_agent2_def)
  obtain m3 where c3: "Agent3_runAgent ascii_runtime (env_agent3 env_stage3_down) (log_mem Agent3)
      (log_mem Orchestrator Action ?p2) = (m3, Inl ?q)"
    using llm_down_fails(3) [of ascii_runtime "log_mem Agent3" "log_mem Orchestrator Action ?p2"]
    by (metis env_stage3_down_def prod.collapse run_env.select_convs(4))
  from pipeline_propagates_stage_error [OF mk(3), of "lit ''from_pr''" ascii_runtime mem_from_pr _ _ False _ _ ?p1 _ _ ?p2 m3 ?q]
    c1 c2 c3
  have "pipeline ascii_runtime env_stage3_down mem_from_pr (lit ''from_pr'') False = (m3, Inl ?q) \<and>
      prositRetour m3 = JObj [(lit ''theme'', JStr (lit ''Cloud migration''))]"
    by (simp add: log_fields run_intro_fields mem_from_pr_fields)
  then show "\<exists>m3. pipeline ascii_runtime env_stage3_down mem_from_pr (lit ''from_pr'') False =
      (m3, Inl ?q) \<and> prositRetour m3 = JObj [(lit ''theme'', JStr (lit ''Cloud migration''))]"
    by blast
qed

section \<open>The slug of createMemory\<close>


lemma replace_non_alnum_head:
  "s \<noteq> [] \<Longrightarrow> is_slug_char (hd s) \<Longrightarrow> replace_non_alnum s \<noteq> [] \<and> hd (replace_non_alnum s) = hd s"
  by (cases s) simp_all






end
